theory Spec2Isabelle
  imports Main "HOL-Library.Word" "HOL-Library.Sublist" "HOL-Library.AList"
begin

text \<open>
  The task and task-run manager of the scheduling package: the allocation of task and
  run identifiers, the key layout over the storage provider, and the operations
  \<open>CreateTask\<close>, \<open>GetTaskByID\<close>, \<open>CreateTaskRun\<close>, \<open>GetRunByID\<close> and \<open>GetRunsByDate\<close>,
  as functions on an explicit store.
\<close>

section \<open>Errors, panics and results\<close>

text \<open>
  A Go function returning \<open>(T, error)\<close> is a function into \<open>failure + T\<close>. An error value
  is kept as the way it was built, so that the message of \<open>fmt.Errorf\<close> can be read back:
  \<open>Errorf m\<close> is \<open>fmt.Errorf\<close> with the finished message \<open>m\<close>, \<open>ErrorfWrap p e\<close> is
  \<open>fmt.Errorf(p + "%v", e)\<close>, the other constructors are errors made by libraries
  (\<open>strconv\<close>, \<open>encoding/json\<close>, \<open>time\<close>) and by the storage provider. A run-time panic
  (an index out of range, a method call on a nil interface) is not an error value: it is
  the constructor \<open>Panic\<close>.
\<close>

datatype panic = IndexOutOfRange | NilDereference

datatype failure =
    Errorf string
  | ErrorfWrap string failure
  | NumErrorSyntax string
  | NumErrorRange string
  | UnmarshalTypeError string
  | MarshalerError string
  | KeyNotFound string
  | BackendUnavailable string
  | Panic panic

fun crashed :: "failure + 'a \<Rightarrow> bool" where
  "crashed (Inl (Panic p)) = True"
| "crashed r = False"

fun returned_error :: "failure + 'a \<Rightarrow> bool" where
  "returned_error (Inl (Panic p)) = False"
| "returned_error (Inl e) = True"
| "returned_error (Inr v) = False"

section \<open>Strings and numbers of the Go libraries\<close>

text \<open>\<open>%d\<close> of \<open>fmt.Sprintf\<close>: the decimal digits, with a minus sign for a negative number.\<close>

definition digit_char :: "nat \<Rightarrow> char" where
  "digit_char d = char_of (48 + d)"

function decimal :: "int \<Rightarrow> string" where
  "decimal n =
     (if n < 10 then [digit_char (nat n)]
      else decimal (n div 10) @ [digit_char (nat (n mod 10))])"
  by pat_completeness auto
termination
  by (relation "measure nat") auto

declare decimal.simps [simp del]

definition fmt_d :: "int \<Rightarrow> string" where
  "fmt_d i = (if i < 0 then CHR ''-'' # decimal (- i) else decimal i)"

text \<open>
  \<open>strings.Split(s, sep)\<close> for a separator that is not empty: the pieces of \<open>s\<close> between
  the occurrences of \<open>sep\<close>, found from left to right without overlap.
\<close>

fun split_from :: "string \<Rightarrow> string \<Rightarrow> string \<Rightarrow> string list" where
  "split_from cur sep [] = [cur]"
| "split_from cur [] (c # cs) = [cur @ c # cs]"
| "split_from cur (p # ps) (c # cs) =
     (if prefix (p # ps) (c # cs)
      then cur # split_from [] (p # ps) (drop (length ps) cs)
      else split_from (cur @ [c]) (p # ps) cs)"

definition Split :: "string \<Rightarrow> string \<Rightarrow> string list" where
  "Split s sep = split_from [] sep s"

text \<open>\<open>strings.Contains\<close>.\<close>

fun Contains :: "string \<Rightarrow> string \<Rightarrow> bool" where
  "Contains [] sub = (sub = [])"
| "Contains (c # cs) sub = (prefix sub (c # cs) \<or> Contains cs sub)"

text \<open>
  \<open>strconv.Atoi\<close>: an optional sign and one or more decimal digits, read into Go's
  \<open>int\<close> (64 bits); anything else is a syntax error, a value that does not fit is a range
  error.
\<close>

definition isDigit :: "char \<Rightarrow> bool" where
  "isDigit c = (48 \<le> (of_char c :: nat) \<and> (of_char c :: nat) \<le> 57)"

fun digits_val :: "int \<Rightarrow> string \<Rightarrow> int" where
  "digits_val acc [] = acc"
| "digits_val acc (c # cs) = digits_val (acc * 10 + (of_char c - 48)) cs"

definition Atoi :: "string \<Rightarrow> failure + 64 word" where
  "Atoi s =
     (let neg = (case s of [] \<Rightarrow> False | c # cs \<Rightarrow> c = CHR ''-'');
          body = (case s of [] \<Rightarrow> [] | c # cs \<Rightarrow> if c = CHR ''-'' \<or> c = CHR ''+'' then cs else s)
      in if body = [] \<or> \<not> list_all isDigit body then Inl (NumErrorSyntax s)
         else let v = (if neg then - digits_val 0 body else digits_val 0 body)
              in if v < - 9223372036854775808 \<or> 9223372036854775808 \<le> v then Inl (NumErrorRange s)
                 else Inr (word_of_int v))"

text \<open>
  \<open>string(n)\<close> for an integer \<open>n\<close>: the UTF-8 encoding of the code point \<open>n\<close>, and of
  U+FFFD when \<open>n\<close> is not a valid code point.
\<close>

definition utf8_encode :: "int \<Rightarrow> string" where
  "utf8_encode r =
     (if r < 0 \<or> 1114111 < r \<or> (55296 \<le> r \<and> r \<le> 57343) then [char_of (239::int), char_of (191::int), char_of (189::int)]
      else if r \<le> 127 then [char_of r]
      else if r \<le> 2047 then [char_of (192 + r div 64), char_of (128 + r mod 64)]
      else if r \<le> 65535 then
        [char_of (224 + r div 4096), char_of (128 + (r div 64) mod 64), char_of (128 + r mod 64)]
      else
        [char_of (240 + r div 262144), char_of (128 + (r div 4096) mod 64),
         char_of (128 + (r div 64) mod 64), char_of (128 + r mod 64)])"

section \<open>Time\<close>

text \<open>
  A \<open>time.Time\<close> in UTC, kept as its civil date and the nanoseconds since midnight. Every
  time that the task manager stores is made by \<open>time.Now().UTC()\<close> or decoded as UTC; a
  \<open>start\<close> that a caller of \<open>GetRunsByDate\<close> gives in another zone, whose \<open>Year()\<close>,
  \<open>Month()\<close> and \<open>Day()\<close> are those of that zone, is outside the model. \<open>Month\<close> prints with
  \<open>%s\<close> as its English name.
\<close>

datatype Month = January | February | March | April | May | June | July | August
  | September | October | November | December

fun month_number :: "Month \<Rightarrow> nat" where
  "month_number January = 1"
| "month_number February = 2"
| "month_number March = 3"
| "month_number April = 4"
| "month_number May = 5"
| "month_number June = 6"
| "month_number July = 7"
| "month_number August = 8"
| "month_number September = 9"
| "month_number October = 10"
| "month_number November = 11"
| "month_number December = 12"

fun month_String :: "Month \<Rightarrow> string" where
  "month_String January = ''January''"
| "month_String February = ''February''"
| "month_String March = ''March''"
| "month_String April = ''April''"
| "month_String May = ''May''"
| "month_String June = ''June''"
| "month_String July = ''July''"
| "month_String August = ''August''"
| "month_String September = ''September''"
| "month_String October = ''October''"
| "month_String November = ''November''"
| "month_String December = ''December''"

record time =
  Year :: int
  Month :: Month
  Day :: int
  Nanos :: int

definition zero_time :: time where
  "zero_time = \<lparr>Year = 1, Month = January, Day = 1, Nanos = 0\<rparr>"

text \<open>\<open>t.Before(u)\<close> and \<open>t.After(u)\<close> compare the instants.\<close>

definition Before :: "time \<Rightarrow> time \<Rightarrow> bool" where
  "Before t u =
     (Year t < Year u \<or> (Year t = Year u \<and>
       (month_number (Month t) < month_number (Month u) \<or> (Month t = Month u \<and>
         (Day t < Day u \<or> (Day t = Day u \<and> Nanos t < Nanos u))))))"

definition After :: "time \<Rightarrow> time \<Rightarrow> bool" where
  "After t u = Before u t"

section \<open>Data model\<close>

text \<open>
  Modelled from the spec: the declarations of \<open>TaskID\<close>, \<open>TaskRunID\<close>, \<open>Status\<close>,
  \<open>Trigger\<close>, \<open>TaskTarget\<close> and of the structs \<open>TaskMetadata\<close>, \<open>TaskRuns\<close>,
  \<open>TaskRunSimple\<close> and \<open>TaskRunMetadata\<close> are not among the sources; only their uses in
  the task manager and in the serialization test are. The identifiers are Go integers
  (converted from \<open>int\<close>, printed with \<open>%d\<close>, compared with \<open>>\<close>), taken as signed 32-bit
  integers; the fields are the ones the manager and the test fill in. An interface value
  that may be nil (\<open>Trigger\<close>, \<open>Target\<close>) is an option. A nil slice and an empty slice are
  both the empty list.
\<close>

text \<open>
  Modelled from the spec: the types \<open>TaskID\<close> and \<open>TaskRunID\<close> (dense positive integers in
  the spec), as Go's \<open>int32\<close>: \<open>+\<close> wraps around, \<open>sint\<close> reads the value, \<open><s\<close> compares.
\<close>

type_synonym TaskID = "32 word"
type_synonym TaskRunID = "32 word"

text \<open>Modelled from the spec: the closed set of statuses.\<close>

datatype Status = Pending | Running | Failed | Succeeded

text \<open>
  Modelled from the spec: the trigger variants and their tags, with the fields the
  serialization test gives them: \<open>TriggerName\<close>, \<open>TriggerType\<close> and, for the dummy trigger,
  \<open>DummyField\<close>. \<open>Type()\<close> reports the \<open>TriggerType\<close> field.
\<close>

definition oneOffTrigger :: string where
  "oneOffTrigger = ''OneOffTrigger''"

definition dummyTrigger :: string where
  "dummyTrigger = ''DummyTrigger''"

datatype Trigger =
    OneOffTrigger string string
  | DummyTrigger string string bool

fun trigger_Type :: "Trigger \<Rightarrow> string" where
  "trigger_Type (OneOffTrigger n ty) = ty"
| "trigger_Type (DummyTrigger n ty b) = ty"

text \<open>
  Modelled from the spec: the target variants, each with a name and its \<open>TargetType\<close>
  tag, which \<open>Type()\<close> reports.
\<close>

definition providerTarget :: string where
  "providerTarget = ''Provider''"

definition nameVariantTarget :: string where
  "nameVariantTarget = ''NameVariant''"

datatype TaskTarget =
    Provider string string
  | NameVariant string string

fun target_Type :: "TaskTarget \<Rightarrow> string" where
  "target_Type (Provider n ty) = ty"
| "target_Type (NameVariant n ty) = ty"

text \<open>
  Modelled from the spec: the three persisted records and the header of a run in the
  index, with the fields of the spec's data model.
\<close>

record TaskMetadata =
  task_ID :: TaskID
  task_Name :: string
  task_TaskType :: string
  task_Target :: "TaskTarget option"
  task_TargetType :: string
  task_DateCreated :: time

record TaskRunSimple =
  RunID :: TaskRunID
  DateCreated :: time

record TaskRuns =
  TaskID :: TaskID
  Runs :: "TaskRunSimple list"

record TaskRunMetadata =
  ID :: TaskRunID
  TaskId :: TaskID
  Name :: string
  Trigger :: "Trigger option"
  TriggerType :: string
  Status :: Status
  StartTime :: time
  EndTime :: time
  Logs :: "string list"
  Error :: string

section \<open>Serialized records\<close>

text \<open>
  Modelled from the spec: \<open>Marshal\<close> and \<open>Unmarshal\<close> of the three records (the file that
  defines them is not among the sources). The spec calls the format JSON-shaped and
  self-describing; a serialized record is kept here as the JSON document its text
  denotes. A string leaf that holds an RFC 3339 timestamp is the leaf \<open>JTime\<close>, with the
  instant it denotes; \<open>JStr\<close> holds any other text. A number leaf is an integer.
\<close>

datatype json =
    JNull
  | JBool bool
  | JNum int
  | JStr string
  | JTime time
  | JArr "json list"
  | JObj "(string \<times> json) list"

text \<open>A member of an object, the last one when the name occurs twice.\<close>

definition field :: "(string \<times> json) list \<Rightarrow> string \<Rightarrow> json option" where
  "field fs k = map_of (rev fs) k"

text \<open>
  The text of a timestamp leaf, for the case that one is read into a string:
  \<open>2006-01-02T15:04:05.999999999Z\<close>, the fraction without its trailing zeros.
\<close>

fun pad :: "nat \<Rightarrow> int \<Rightarrow> string" where
  "pad 0 n = []"
| "pad (Suc k) n = pad k (n div 10) @ [digit_char (nat (n mod 10))]"

fun trim_zeros :: "string \<Rightarrow> string" where
  "trim_zeros [] = []"
| "trim_zeros (c # cs) =
     (case trim_zeros cs of
        [] \<Rightarrow> (if c = CHR ''0'' then [] else [c])
      | d # ds \<Rightarrow> c # d # ds)"

definition RFC3339 :: "time \<Rightarrow> string" where
  "RFC3339 t =
     (let secs = Nanos t div 1000000000; frac = Nanos t mod 1000000000
      in (if 0 \<le> Year t \<and> Year t \<le> 9999 then pad 4 (Year t) else fmt_d (Year t))
         @ ''-'' @ pad 2 (int (month_number (Month t))) @ ''-'' @ pad 2 (Day t)
         @ ''T'' @ pad 2 (secs div 3600) @ '':'' @ pad 2 ((secs div 60) mod 60)
         @ '':'' @ pad 2 (secs mod 60)
         @ (if frac = 0 then [] else CHR ''.'' # trim_zeros (pad 9 frac)) @ ''Z'')"

text \<open>
  Reading a member into a typed field, as a JSON decoder does: a member that is absent
  or null leaves the zero value, a member of the wrong kind is an error.
\<close>

fun dec_int32 :: "json option \<Rightarrow> failure + 32 word" where
  "dec_int32 None = Inr 0"
| "dec_int32 (Some JNull) = Inr 0"
| "dec_int32 (Some (JNum n)) =
     (if - 2147483648 \<le> n \<and> n < 2147483648 then Inr (word_of_int n)
      else Inl (UnmarshalTypeError ''number out of range''))"
| "dec_int32 (Some j) = Inl (UnmarshalTypeError ''number expected'')"

fun dec_string :: "json option \<Rightarrow> failure + string" where
  "dec_string None = Inr []"
| "dec_string (Some JNull) = Inr []"
| "dec_string (Some (JStr s)) = Inr s"
| "dec_string (Some (JTime t)) = Inr (RFC3339 t)"
| "dec_string (Some j) = Inl (UnmarshalTypeError ''string expected'')"

fun dec_bool :: "json option \<Rightarrow> failure + bool" where
  "dec_bool None = Inr False"
| "dec_bool (Some JNull) = Inr False"
| "dec_bool (Some (JBool b)) = Inr b"
| "dec_bool (Some j) = Inl (UnmarshalTypeError ''bool expected'')"

fun dec_time :: "json option \<Rightarrow> failure + time" where
  "dec_time None = Inr zero_time"
| "dec_time (Some JNull) = Inr zero_time"
| "dec_time (Some (JTime t)) = Inr t"
| "dec_time (Some j) = Inl (UnmarshalTypeError ''timestamp expected'')"

fun dec_list :: "(json option \<Rightarrow> failure + 'a) \<Rightarrow> json list \<Rightarrow> failure + 'a list" where
  "dec_list d [] = Inr []"
| "dec_list d (j # js) =
     (case d (Some j) of
        Inl e \<Rightarrow> Inl e
      | Inr v \<Rightarrow> (case dec_list d js of Inl e \<Rightarrow> Inl e | Inr vs \<Rightarrow> Inr (v # vs)))"

fun dec_array :: "(json option \<Rightarrow> failure + 'a) \<Rightarrow> json option \<Rightarrow> failure + 'a list" where
  "dec_array d None = Inr []"
| "dec_array d (Some JNull) = Inr []"
| "dec_array d (Some (JArr js)) = dec_list d js"
| "dec_array d (Some j) = Inl (UnmarshalTypeError ''array expected'')"

text \<open>A timestamp is written only when its year is within 0 to 9999.\<close>

definition enc_time :: "time \<Rightarrow> failure + json" where
  "enc_time t =
     (if 0 \<le> Year t \<and> Year t \<le> 9999 then Inr (JTime t)
      else Inl (MarshalerError ''Time.MarshalJSON: year outside of range [0,9999]''))"

fun enc_list :: "('a \<Rightarrow> failure + json) \<Rightarrow> 'a list \<Rightarrow> failure + json list" where
  "enc_list f [] = Inr []"
| "enc_list f (x # xs) =
     (case f x of
        Inl e \<Rightarrow> Inl e
      | Inr j \<Rightarrow> (case enc_list f xs of Inl e \<Rightarrow> Inl e | Inr js \<Rightarrow> Inr (j # js)))"

text \<open>A text between single quotes, as \<open>'%s'\<close> prints it.\<close>

definition squote :: "string \<Rightarrow> string" where
  "squote s = CHR 0x27 # s @ [CHR 0x27]"

text \<open>\<open>bindR r f\<close>: go on with \<open>f\<close> unless \<open>r\<close> is an error (\<open>if err != nil { return err }\<close>).\<close>

fun bindR :: "failure + 'a \<Rightarrow> ('a \<Rightarrow> failure + 'b) \<Rightarrow> failure + 'b" where
  "bindR (Inl e) f = Inl e"
| "bindR (Inr v) f = f v"

subsection \<open>The runs index of a task\<close>

text \<open>
  Modelled from the spec: \<open>TaskRuns.Marshal\<close>, which is not among the sources. The index
  is a plain record \<open>{TaskID, Runs: [{RunID, DateCreated}]}\<close>.
\<close>

definition Marshal_TaskRunSimple :: "TaskRunSimple \<Rightarrow> failure + json" where
  "Marshal_TaskRunSimple r =
     bindR (enc_time (DateCreated r)) (\<lambda>d.
       Inr (JObj [(''RunID'', JNum (sint (RunID r))), (''DateCreated'', d)]))"

definition Marshal_TaskRuns :: "TaskRuns \<Rightarrow> failure + json" where
  "Marshal_TaskRuns rs =
     bindR (enc_list Marshal_TaskRunSimple (Runs rs)) (\<lambda>js.
       Inr (JObj [(''TaskID'', JNum (sint (TaskID rs))), (''Runs'', JArr js)]))"

text \<open>
  Modelled from the spec: \<open>TaskRuns.Unmarshal\<close>, which is not among the sources; the
  plain record is read back member by member.
\<close>

fun dec_TaskRunSimple :: "json option \<Rightarrow> failure + TaskRunSimple" where
  "dec_TaskRunSimple None = Inr \<lparr>RunID = 0, DateCreated = zero_time\<rparr>"
| "dec_TaskRunSimple (Some JNull) = Inr \<lparr>RunID = 0, DateCreated = zero_time\<rparr>"
| "dec_TaskRunSimple (Some (JObj fs)) =
     bindR (dec_int32 (field fs ''RunID'')) (\<lambda>i.
     bindR (dec_time (field fs ''DateCreated'')) (\<lambda>d.
       Inr \<lparr>RunID = i, DateCreated = d\<rparr>))"
| "dec_TaskRunSimple (Some j) = Inl (UnmarshalTypeError ''object expected'')"

fun Unmarshal_TaskRuns :: "json \<Rightarrow> failure + TaskRuns" where
  "Unmarshal_TaskRuns JNull = Inr \<lparr>TaskID = 0, Runs = []\<rparr>"
| "Unmarshal_TaskRuns (JObj fs) =
     bindR (dec_int32 (field fs ''TaskID'')) (\<lambda>i.
     bindR (dec_array dec_TaskRunSimple (field fs ''Runs'')) (\<lambda>rs.
       Inr \<lparr>TaskID = i, Runs = rs\<rparr>))"
| "Unmarshal_TaskRuns j = Inl (UnmarshalTypeError ''object expected'')"

subsection \<open>The detail record of a run\<close>

text \<open>
  Modelled from the spec: \<open>TaskRunMetadata.Marshal\<close>, which is not among the sources.
  The member names are the ones of the documents in the serialization test. Every field
  is written verbatim, the trigger as a nested object that carries its own
  \<open>triggerType\<close>.
\<close>

fun status_String :: "Status \<Rightarrow> string" where
  "status_String Pending = ''PENDING''"
| "status_String Running = ''RUNNING''"
| "status_String Failed = ''FAILED''"
| "status_String Succeeded = ''SUCCEEDED''"

fun enc_trigger :: "Trigger option \<Rightarrow> json" where
  "enc_trigger None = JNull"
| "enc_trigger (Some (OneOffTrigger n ty)) =
     JObj [(''triggerName'', JStr n), (''triggerType'', JStr ty)]"
| "enc_trigger (Some (DummyTrigger n ty b)) =
     JObj [(''triggerName'', JStr n), (''triggerType'', JStr ty), (''dummyField'', JBool b)]"

definition enc_strings :: "string list \<Rightarrow> json" where
  "enc_strings xs = (if xs = [] then JNull else JArr (map JStr xs))"

definition Marshal_TaskRunMetadata :: "TaskRunMetadata \<Rightarrow> failure + json" where
  "Marshal_TaskRunMetadata m =
     bindR (enc_time (StartTime m)) (\<lambda>st.
     bindR (enc_time (EndTime m)) (\<lambda>en.
       Inr (JObj [(''id'', JNum (sint (ID m))),
                  (''TaskId'', JNum (sint (TaskId m))),
                  (''name'', JStr (Name m)),
                  (''trigger'', enc_trigger (Trigger m)),
                  (''triggerType'', JStr (TriggerType m)),
                  (''status'', JStr (status_String (Status m))),
                  (''startTime'', st),
                  (''endTime'', en),
                  (''logs'', enc_strings (Logs m)),
                  (''error'', JStr (Error m))])))"

text \<open>
  Modelled from the spec: \<open>TaskRunMetadata.Unmarshal\<close>, which is not among the sources.
  The decoder checks that \<open>name\<close> and \<open>trigger\<close> are there (\<open>Missing field '...'\<close>), that the
  trigger is an object (\<open>Wrong format of Trigger\<close>), lets the \<open>triggerType\<close> of the trigger
  choose the variant, and takes a status only from the closed set (\<open>No such status:
  '<value>'\<close>). The message for an unknown trigger tag is the one the corrupt-data test
  names.
\<close>

definition dec_status :: "json option \<Rightarrow> failure + Status" where
  "dec_status j =
     bindR (dec_string j) (\<lambda>v.
       if v = ''PENDING'' then Inr Pending
       else if v = ''RUNNING'' then Inr Running
       else if v = ''FAILED'' then Inr Failed
       else if v = ''SUCCEEDED'' then Inr Succeeded
       else Inl (Errorf (''No such status: '' @ squote v)))"

fun dec_trigger :: "json \<Rightarrow> failure + Trigger" where
  "dec_trigger (JObj tf) =
     bindR (dec_string (field tf ''triggerType'')) (\<lambda>tag.
       if tag = oneOffTrigger then
         bindR (dec_string (field tf ''triggerName'')) (\<lambda>n. Inr (OneOffTrigger n tag))
       else if tag = dummyTrigger then
         bindR (dec_string (field tf ''triggerName'')) (\<lambda>n.
         bindR (dec_bool (field tf ''dummyField'')) (\<lambda>b. Inr (DummyTrigger n tag b)))
       else Inl (Errorf (''No such target type: '' @ squote tag)))"
| "dec_trigger j = Inl (Errorf ''Wrong format of Trigger'')"

fun Unmarshal_TaskRunMetadata :: "json \<Rightarrow> failure + TaskRunMetadata" where
  "Unmarshal_TaskRunMetadata (JObj fs) =
     (case field fs ''name'' of
        None \<Rightarrow> Inl (Errorf (''Missing field '' @ squote ''name''))
      | Some nm \<Rightarrow>
     (case field fs ''trigger'' of
        None \<Rightarrow> Inl (Errorf (''Missing field '' @ squote ''trigger''))
      | Some tj \<Rightarrow>
          bindR (dec_trigger tj) (\<lambda>tr.
          bindR (dec_status (field fs ''status'')) (\<lambda>st.
          bindR (dec_int32 (field fs ''id'')) (\<lambda>i.
          bindR (dec_int32 (field fs ''TaskId'')) (\<lambda>ti.
          bindR (dec_string (Some nm)) (\<lambda>n.
          bindR (dec_string (field fs ''triggerType'')) (\<lambda>tt.
          bindR (dec_time (field fs ''startTime'')) (\<lambda>s.
          bindR (dec_time (field fs ''endTime'')) (\<lambda>e.
          bindR (dec_array dec_string (field fs ''logs'')) (\<lambda>ls.
          bindR (dec_string (field fs ''error'')) (\<lambda>er.
            Inr \<lparr>ID = i, TaskId = ti, Name = n, Trigger = Some tr, TriggerType = tt,
                 Status = st, StartTime = s, EndTime = e, Logs = ls, Error = er\<rparr>))))))))))))"
| "Unmarshal_TaskRunMetadata j = Inl (UnmarshalTypeError ''object expected'')"

subsection \<open>The detail record of a task\<close>

text \<open>
  Modelled from the spec: \<open>TaskMetadata.Marshal\<close> and \<open>TaskMetadata.Unmarshal\<close>, which are
  not among the sources. Same shape as the run record: every field verbatim, the target
  as a nested object with its \<open>targetType\<close>, which chooses the variant on decoding; an
  unknown tag fails with \<open>No such target type: '<tag>'\<close>.
\<close>

fun enc_target :: "TaskTarget option \<Rightarrow> json" where
  "enc_target None = JNull"
| "enc_target (Some (Provider n ty)) = JObj [(''name'', JStr n), (''targetType'', JStr ty)]"
| "enc_target (Some (NameVariant n ty)) = JObj [(''name'', JStr n), (''targetType'', JStr ty)]"

definition Marshal_TaskMetadata :: "TaskMetadata \<Rightarrow> failure + json" where
  "Marshal_TaskMetadata m =
     bindR (enc_time (task_DateCreated m)) (\<lambda>d.
       Inr (JObj [(''id'', JNum (sint (task_ID m))),
                  (''name'', JStr (task_Name m)),
                  (''type'', JStr (task_TaskType m)),
                  (''target'', enc_target (task_Target m)),
                  (''targetType'', JStr (task_TargetType m)),
                  (''dateCreated'', d)]))"

fun dec_target :: "json option \<Rightarrow> failure + TaskTarget option" where
  "dec_target (Some (JObj tf)) =
     bindR (dec_string (field tf ''targetType'')) (\<lambda>tag.
     bindR (dec_string (field tf ''name'')) (\<lambda>n.
       if tag = providerTarget then Inr (Some (Provider n tag))
       else if tag = nameVariantTarget then Inr (Some (NameVariant n tag))
       else Inl (Errorf (''No such target type: '' @ squote tag))))"
| "dec_target j = Inl (UnmarshalTypeError ''object expected'')"

fun Unmarshal_TaskMetadata :: "json \<Rightarrow> failure + TaskMetadata" where
  "Unmarshal_TaskMetadata (JObj fs) =
     bindR (dec_int32 (field fs ''id'')) (\<lambda>i.
     bindR (dec_string (field fs ''name'')) (\<lambda>n.
     bindR (dec_string (field fs ''type'')) (\<lambda>ty.
     bindR (dec_string (field fs ''targetType'')) (\<lambda>tt.
     bindR (dec_target (field fs ''target'')) (\<lambda>tg.
     bindR (dec_time (field fs ''dateCreated'')) (\<lambda>d.
       Inr \<lparr>task_ID = i, task_Name = n, task_TaskType = ty, task_Target = tg,
            task_TargetType = tt, task_DateCreated = d\<rparr>))))))"
| "Unmarshal_TaskMetadata j = Inl (UnmarshalTypeError ''object expected'')"

section \<open>The storage provider\<close>

text \<open>
  Modelled from the spec: the \<open>StorageProvider\<close> interface and its implementations are
  not among the sources. The spec gives the contract: \<open>Set\<close> is an unconditional put;
  \<open>Get\<close> of one key returns exactly the value at the key, or an empty result when the key
  is missing, and an implementation may fail fast instead; \<open>Get\<close> of a prefix returns the
  values of all keys that start with it; \<open>ListKeys\<close> returns those keys; every operation
  can fail when the backend is unavailable. The store is its list of entries, the flag
  \<open>failFast\<close> that chooses between the two answers for a missing key, and the keys at
  which the backend fails.
\<close>

text \<open>Modelled from the spec: the state of a \<open>StorageProvider\<close>.\<close>

record store =
  entries :: "(string \<times> json) list"
  failFast :: bool
  faulty :: "string list"

text \<open>Modelled from the spec: \<open>StorageProvider.Set\<close>, an unconditional put.\<close>

definition storage_Set :: "store \<Rightarrow> string \<Rightarrow> json \<Rightarrow> failure + store" where
  "storage_Set s key v =
     (if key \<in> set (faulty s) then Inl (BackendUnavailable key)
      else Inr (s\<lparr>entries := AList.update key v (entries s)\<rparr>))"

text \<open>
  Modelled from the spec: \<open>StorageProvider.Get\<close>. For one key: the value at the key, and
  for a missing key the empty result or, with \<open>failFast\<close>, an error. For a prefix: the
  values of all keys that start with it.
\<close>

definition storage_Get :: "store \<Rightarrow> string \<Rightarrow> bool \<Rightarrow> failure + json list" where
  "storage_Get s key isPrefix =
     (if key \<in> set (faulty s) then Inl (BackendUnavailable key)
      else if isPrefix then Inr (map snd (filter (\<lambda>kv. prefix key (fst kv)) (entries s)))
      else (case map_of (entries s) key of
              Some v \<Rightarrow> Inr [v]
            | None \<Rightarrow> if failFast s then Inl (KeyNotFound key) else Inr []))"

text \<open>Modelled from the spec: \<open>StorageProvider.ListKeys\<close>, the keys under a prefix.\<close>

definition storage_ListKeys :: "store \<Rightarrow> string \<Rightarrow> failure + string list" where
  "storage_ListKeys s pre =
     (if pre \<in> set (faulty s) then Inl (BackendUnavailable pre)
      else Inr (map fst (filter (\<lambda>kv. prefix pre (fst kv)) (entries s))))"

section \<open>Key layout\<close>

definition TASKMETADATA :: string where
  "TASKMETADATA = ''/tasks/metadata/task_id=''"

definition TASKRUNS :: string where
  "TASKRUNS = ''/tasks/runs/task_id=''"

definition TASKRUNMETADATA :: string where
  "TASKRUNMETADATA = ''/tasks/runs/metadata''"

definition GetTaskMetadataKey :: "string \<Rightarrow> TaskID \<Rightarrow> string" where
  "GetTaskMetadataKey tk i = tk @ fmt_d (sint i)"

text \<open>\<open>fmt.Sprintf("/tasks/runs/task_id=%d", taskID)\<close>\<close>

definition runs_index_key :: "TaskID \<Rightarrow> string" where
  "runs_index_key taskID = ''/tasks/runs/task_id='' @ fmt_d (sint taskID)"

text \<open>\<open>fmt.Sprintf("tasks/runs/metadata/%d/%s/%d", t.Year(), t.Month(), t.Day())\<close>\<close>

definition day_prefix :: "time \<Rightarrow> string" where
  "day_prefix t =
     ''tasks/runs/metadata/'' @ fmt_d (Year t) @ ''/'' @ month_String (Month t)
       @ ''/'' @ fmt_d (Day t)"

text \<open>
  \<open>fmt.Sprintf("tasks/runs/metadata/%d/%s/%d/task_id=%d/run_id=%d", t.Year(), t.Month(),
  t.Day(), taskID, runID)\<close>
\<close>

definition run_detail_key :: "time \<Rightarrow> TaskID \<Rightarrow> TaskRunID \<Rightarrow> string" where
  "run_detail_key t taskID runID =
     day_prefix t @ ''/task_id='' @ fmt_d (sint taskID) @ ''/run_id='' @ fmt_d (sint runID)"

section \<open>The task manager\<close>

text \<open>
  Every operation takes the store and returns its result; the two that write return the
  store they leave behind as well, also when they fail after the first write. The
  reading of the clock, \<open>time.Now().UTC()\<close>, is the argument \<open>now\<close>.
\<close>

subsection \<open>Identifier allocation\<close>

fun getLatestID_loop :: "64 word \<Rightarrow> string list \<Rightarrow> failure + 64 word" where
  "getLatestID_loop highestIncrement [] =
     (if highestIncrement = - 1 then Inl (Errorf ''no valid increments found'')
      else Inr highestIncrement)"
| "getLatestID_loop highestIncrement (path # rest) =
     (let parts = Split path ''task_id=''
      in if length parts < 2 then Inl (Errorf (''invalid format for path: '' @ path))
         else (case Atoi (parts ! 1) of
                 Inl err \<Rightarrow> Inl (ErrorfWrap ''failed to convert task_id to integer: '' err)
               | Inr increment \<Rightarrow>
                   getLatestID_loop
                     (if highestIncrement <s increment then increment else highestIncrement)
                     rest))"

definition getLatestID :: "string list \<Rightarrow> failure + 64 word" where
  "getLatestID taskPaths = getLatestID_loop (- 1) taskPaths"

fun highest_loop :: "TaskRunID \<Rightarrow> TaskRunSimple list \<Rightarrow> TaskRunID" where
  "highest_loop highestRunID [] = highestRunID"
| "highest_loop highestRunID (run # rest) =
     highest_loop (if highestRunID <s RunID run then RunID run else highestRunID) rest"

definition getHighestRunID :: "TaskRuns \<Rightarrow> failure + TaskRunID" where
  "getHighestRunID taskRuns =
     (case Runs taskRuns of
        [] \<Rightarrow> Inr 0
      | r0 # rest \<Rightarrow> Inr (highest_loop (RunID r0) rest))"

subsection \<open>Tasks\<close>

definition CreateTask ::
  "store \<Rightarrow> time \<Rightarrow> string \<Rightarrow> string \<Rightarrow> TaskTarget option \<Rightarrow> store \<times> (failure + TaskMetadata)"
where
  "CreateTask s now name tType target =
     (case storage_ListKeys s TASKMETADATA of
        Inl err \<Rightarrow> (s, Inl (ErrorfWrap ''failed to fetch keys: '' err))
      | Inr keys \<Rightarrow>
     (case (if length keys = 0 then Inr 0 else getLatestID keys) of
        Inl err \<Rightarrow> (s, Inl err)
      | Inr latestID \<Rightarrow>
     (case target of
        None \<Rightarrow> (s, Inl (Panic NilDereference))
      | Some tg \<Rightarrow>
          (let metadata =
                 \<lparr>task_ID = scast (latestID + 1), task_Name = name, task_TaskType = tType,
                  task_Target = Some tg, task_TargetType = target_Type tg,
                  task_DateCreated = now\<rparr>
           in (case Marshal_TaskMetadata metadata of
                 Inl err \<Rightarrow> (s, Inl (ErrorfWrap ''failed to marshal metadata: '' err))
               | Inr serializedMetadata \<Rightarrow>
              (case storage_Set s (GetTaskMetadataKey TASKMETADATA (task_ID metadata))
                      serializedMetadata of
                 Inl err \<Rightarrow> (s, Inl err)
               | Inr s1 \<Rightarrow>
              (case Marshal_TaskRuns \<lparr>TaskID = task_ID metadata, Runs = []\<rparr> of
                 Inl err \<Rightarrow> (s1, Inl err)
               | Inr serializedRuns \<Rightarrow>
              (case storage_Set s1 (runs_index_key (task_ID metadata)) serializedRuns of
                 Inl err \<Rightarrow> (s1, Inl err)
               | Inr s2 \<Rightarrow> (s2, Inr metadata)))))))))"

definition GetTaskByID :: "store \<Rightarrow> TaskID \<Rightarrow> failure + TaskMetadata" where
  "GetTaskByID s i =
     (case storage_Get s (GetTaskMetadataKey TASKMETADATA i) False of
        Inl err \<Rightarrow> Inl err
      | Inr metadata \<Rightarrow>
     (case metadata of
        [] \<Rightarrow> Inl (Errorf (''task not found for id: '' @ utf8_encode (sint i)))
      | m0 # ms \<Rightarrow> Unmarshal_TaskMetadata m0))"

subsection \<open>Runs\<close>

definition CreateTaskRun ::
  "store \<Rightarrow> time \<Rightarrow> string \<Rightarrow> TaskID \<Rightarrow> Trigger option \<Rightarrow> store \<times> (failure + TaskRunMetadata)"
where
  "CreateTaskRun s now name taskID trigger =
     (case storage_Get s (runs_index_key taskID) False of
        Inl err \<Rightarrow> (s, Inl (ErrorfWrap ''failed to fetch task: '' err))
      | Inr key \<Rightarrow>
     (case key of
        [] \<Rightarrow> (s, Inl (Panic IndexOutOfRange))
      | k0 # ks \<Rightarrow>
     (case Unmarshal_TaskRuns k0 of
        Inl err \<Rightarrow> (s, Inl err)
      | Inr runs \<Rightarrow>
     (case getHighestRunID runs of
        Inl err \<Rightarrow> (s, Inl err)
      | Inr latestID \<Rightarrow>
     (case trigger of
        None \<Rightarrow> (s, Inl (Panic NilDereference))
      | Some tr \<Rightarrow>
          (let startTime = now;
               metadata =
                 \<lparr>ID = latestID + 1, TaskId = taskID, Name = name, Trigger = Some tr,
                  TriggerType = trigger_Type tr, Status = Pending, StartTime = startTime,
                  EndTime = zero_time, Logs = [], Error = []\<rparr>;
               runs' = runs\<lparr>Runs := Runs runs @ [\<lparr>RunID = ID metadata, DateCreated = startTime\<rparr>]\<rparr>
           in (case Marshal_TaskRuns runs' of
                 Inl err \<Rightarrow> (s, Inl err)
               | Inr serializedRuns \<Rightarrow>
              (case Marshal_TaskRunMetadata metadata of
                 Inl err \<Rightarrow> (s, Inl (ErrorfWrap ''failed to marshal metadata: '' err))
               | Inr serializedMetadata \<Rightarrow>
              (case storage_Set s (runs_index_key taskID) serializedRuns of
                 Inl err \<Rightarrow> (s, Inl err)
               | Inr s1 \<Rightarrow>
              (case storage_Set s1 (run_detail_key startTime taskID (ID metadata))
                      serializedMetadata of
                 Inl err \<Rightarrow> (s1, Inl err)
               | Inr s2 \<Rightarrow> (s2, Inr metadata)))))))))))"

fun find_run :: "TaskRunID \<Rightarrow> TaskRunSimple list \<Rightarrow> TaskRunSimple option" where
  "find_run runID [] = None"
| "find_run runID (run # rest) = (if RunID run = runID then Some run else find_run runID rest)"

definition GetRunByID :: "store \<Rightarrow> TaskID \<Rightarrow> TaskRunID \<Rightarrow> failure + TaskRunMetadata" where
  "GetRunByID s taskID runID =
     (case storage_Get s (runs_index_key taskID) False of
        Inl err \<Rightarrow> Inl (ErrorfWrap ''failed to fetch task: '' err)
      | Inr key \<Rightarrow>
     (case key of
        [] \<Rightarrow> Inl (Panic IndexOutOfRange)
      | k0 # ks \<Rightarrow>
     (case Unmarshal_TaskRuns k0 of
        Inl err \<Rightarrow> Inl err
      | Inr runs \<Rightarrow>
     (case find_run runID (Runs runs) of
        None \<Rightarrow> Inl (Errorf ''run not found'')
      | Some runRecord \<Rightarrow>
     (case storage_Get s
             (run_detail_key (DateCreated runRecord) taskID (RunID runRecord)) False of
        Inl err \<Rightarrow> Inl err
      | Inr rec \<Rightarrow>
     (case rec of
        [] \<Rightarrow> Inl (Panic IndexOutOfRange)
      | r0 # rs \<Rightarrow>
     (case Unmarshal_TaskRunMetadata r0 of
        Inl err \<Rightarrow> Inl (ErrorfWrap ''failed to unmarshal run record: '' err)
      | Inr taskRun \<Rightarrow> Inr taskRun)))))))"

fun runs_by_date_loop ::
  "time \<Rightarrow> TaskRunMetadata list \<Rightarrow> json list \<Rightarrow> failure + TaskRunMetadata list"
where
  "runs_by_date_loop start runs [] = Inr runs"
| "runs_by_date_loop start runs (record # recs) =
     (case Unmarshal_TaskRunMetadata record of
        Inl err \<Rightarrow> Inl (ErrorfWrap ''failed to unmarshal run record: '' err)
      | Inr taskRun \<Rightarrow>
          if After (StartTime taskRun) start then runs_by_date_loop start runs recs
          else runs_by_date_loop start (runs @ [taskRun]) recs)"

definition GetRunsByDate :: "store \<Rightarrow> time \<Rightarrow> time \<Rightarrow> failure + TaskRunMetadata list" where
  "GetRunsByDate s start end =
     (case storage_Get s (day_prefix start) True of
        Inl err \<Rightarrow> Inl err
      | Inr recs \<Rightarrow> runs_by_date_loop start [] recs)"

section \<open>Notions of the specification\<close>

text \<open>
  A legal in-memory value: a timestamp that the encoder can write, and a trigger whose
  \<open>TriggerType\<close> field is the tag of its own variant.
\<close>

definition legal_time :: "time \<Rightarrow> bool" where
  "legal_time t = (0 \<le> Year t \<and> Year t \<le> 9999)"

fun variant_tag :: "Trigger \<Rightarrow> string" where
  "variant_tag (OneOffTrigger n ty) = oneOffTrigger"
| "variant_tag (DummyTrigger n ty b) = dummyTrigger"

definition legal_trigger :: "Trigger \<Rightarrow> bool" where
  "legal_trigger tr = (trigger_Type tr = variant_tag tr)"

text \<open>The texts of the closed set of statuses.\<close>

definition status_names :: "string list" where
  "status_names = map status_String [Pending, Running, Failed, Succeeded]"

section \<open>Sample inputs\<close>

definition ex_ten :: time where
  "ex_ten = \<lparr>Year = 2024, Month = March, Day = 15, Nanos = 36000000000000\<rparr>"

definition ex_noon :: time where
  "ex_noon = \<lparr>Year = 2024, Month = March, Day = 15, Nanos = 43200000000000\<rparr>"

definition ex_two :: time where
  "ex_two = \<lparr>Year = 2024, Month = March, Day = 15, Nanos = 50400000000000\<rparr>"

definition ex_oneoff_run :: TaskRunMetadata where
  "ex_oneoff_run =
     \<lparr>ID = 1, TaskId = 12, Name = ''oneoff_taskrun'',
      Trigger = Some (OneOffTrigger ''name1'' ''OneOffTrigger''), TriggerType = [],
      Status = Pending, StartTime = ex_ten, EndTime = ex_noon, Logs = [], Error = []\<rparr>"

definition ex_run :: TaskRunMetadata where
  "ex_run =
     \<lparr>ID = 1, TaskId = 12, Name = ''dummy_taskrun'',
      Trigger = Some (DummyTrigger ''name2'' ''DummyTrigger'' True), TriggerType = [],
      Status = Failed, StartTime = ex_ten, EndTime = ex_noon, Logs = [], Error = []\<rparr>"

text \<open>The documents of the corrupt-data test, as far as they are JSON.\<close>

definition ex_trigger_doc :: json where
  "ex_trigger_doc =
     JObj [(''triggerName'', JStr ''name5''), (''triggerType'', JStr ''OneOffTrigger''),
           (''dummyField'', JBool False)]"

definition ex_tail :: "(string \<times> json) list" where
  "ex_tail =
     [(''startTime'', JTime ex_ten), (''endTime'', JTime ex_ten), (''logs'', JNull),
      (''error'', JStr ''invalid json'')]"

definition ex_missing_name :: "(string \<times> json) list" where
  "ex_missing_name =
     [(''id'', JNum 1), (''TaskId'', JNum 12), (''trigger'', ex_trigger_doc),
      (''status'', JStr ''FAILED'')] @ ex_tail"

definition ex_missing_trigger :: "(string \<times> json) list" where
  "ex_missing_trigger =
     [(''id'', JNum 1), (''TaskId'', JNum 12), (''name'', JStr ''invalid_json_file''),
      (''status'', JStr ''FAILED'')] @ ex_tail"

definition ex_array_trigger :: "(string \<times> json) list" where
  "ex_array_trigger =
     [(''id'', JNum 1), (''TaskId'', JNum 12), (''name'', JStr ''invalid_json_file''),
      (''trigger'', JArr [JStr ''name8'', JStr ''DummyTrigger'', JBool False]),
      (''status'', JStr ''PENDING'')] @ ex_tail"

definition ex_bad_status :: "(string \<times> json) list" where
  "ex_bad_status =
     [(''id'', JNum 1), (''TaskId'', JNum 12), (''name'', JStr ''invalid_json_file''),
      (''trigger'', ex_trigger_doc), (''status'', JStr ''NOSTATUS'')] @ ex_tail"

definition ex_empty :: store where
  "ex_empty = \<lparr>entries = [], failFast = False, faulty = []\<rparr>"

definition ex_failfast :: store where
  "ex_failfast = \<lparr>entries = [], failFast = True, faulty = []\<rparr>"

definition ex_trigger :: Trigger where
  "ex_trigger = OneOffTrigger ''t1'' ''OneOffTrigger''"

definition ex_index1 :: json where
  "ex_index1 =
     JObj [(''TaskID'', JNum 1),
           (''Runs'', JArr [JObj [(''RunID'', JNum 1), (''DateCreated'', JTime ex_noon)]])]"

definition ex_dangling :: store where
  "ex_dangling =
     \<lparr>entries = [(''/tasks/runs/task_id=1'', ex_index1)], failFast = False, faulty = []\<rparr>"

definition ex_noon_run :: TaskRunMetadata where
  "ex_noon_run =
     \<lparr>ID = 1, TaskId = 1, Name = ''first'', Trigger = Some ex_trigger,
      TriggerType = ''OneOffTrigger'', Status = Pending, StartTime = ex_noon,
      EndTime = zero_time, Logs = [], Error = []\<rparr>"

definition ex_noon_doc :: json where
  "ex_noon_doc =
     JObj [(''id'', JNum 1), (''TaskId'', JNum 1), (''name'', JStr ''first''),
           (''trigger'', JObj [(''triggerName'', JStr ''t1''), (''triggerType'', JStr ''OneOffTrigger'')]),
           (''triggerType'', JStr ''OneOffTrigger''), (''status'', JStr ''PENDING''),
           (''startTime'', JTime ex_noon), (''endTime'', JTime zero_time),
           (''logs'', JNull), (''error'', JStr [])]"

definition ex_day :: store where
  "ex_day =
     \<lparr>entries = [(''/tasks/runs/task_id=1'', ex_index1),
                 (''tasks/runs/metadata/2024/March/15/task_id=1/run_id=1'', ex_noon_doc)],
      failFast = False, faulty = []\<rparr>"

definition ex_index0 :: json where
  "ex_index0 = JObj [(''TaskID'', JNum 1), (''Runs'', JArr [])]"

definition ex_indexed :: store where
  "ex_indexed =
     \<lparr>entries = [(''/tasks/runs/task_id=1'', ex_index0)], failFast = False, faulty = []\<rparr>"

definition ex_second_run :: TaskRunMetadata where
  "ex_second_run =
     \<lparr>ID = 2, TaskId = 1, Name = ''second'', Trigger = Some ex_trigger,
      TriggerType = ''OneOffTrigger'', Status = Pending, StartTime = ex_two,
      EndTime = zero_time, Logs = [], Error = []\<rparr>"

definition ex_index2 :: json where
  "ex_index2 =
     JObj [(''TaskID'', JNum 1),
           (''Runs'', JArr [JObj [(''RunID'', JNum 1), (''DateCreated'', JTime ex_noon)],
                            JObj [(''RunID'', JNum 2), (''DateCreated'', JTime ex_two)]])]"

definition ex_second_doc :: json where
  "ex_second_doc =
     JObj [(''id'', JNum 2), (''TaskId'', JNum 1), (''name'', JStr ''second''),
           (''trigger'', JObj [(''triggerName'', JStr ''t1''), (''triggerType'', JStr ''OneOffTrigger'')]),
           (''triggerType'', JStr ''OneOffTrigger''), (''status'', JStr ''PENDING''),
           (''startTime'', JTime ex_two), (''endTime'', JTime zero_time),
           (''logs'', JNull), (''error'', JStr [])]"

definition ex_after_second :: store where
  "ex_after_second =
     \<lparr>entries = [(''/tasks/runs/task_id=1'', ex_index2),
                 (''tasks/runs/metadata/2024/March/15/task_id=1/run_id=2'', ex_second_doc)],
      failFast = False, faulty = []\<rparr>"

definition ex_index_full :: json where
  "ex_index_full =
     JObj [(''TaskID'', JNum 1),
           (''Runs'', JArr [JObj [(''RunID'', JNum 2147483647), (''DateCreated'', JTime ex_noon)]])]"

definition ex_full :: store where
  "ex_full =
     \<lparr>entries = [(''/tasks/runs/task_id=1'', ex_index_full)], failFast = False, faulty = []\<rparr>"

definition ex_wrapped_run :: TaskRunMetadata where
  "ex_wrapped_run =
     \<lparr>ID = - 2147483648, TaskId = 1, Name = ''next'', Trigger = Some ex_trigger,
      TriggerType = ''OneOffTrigger'', Status = Pending, StartTime = ex_two,
      EndTime = zero_time, Logs = [], Error = []\<rparr>"

definition ex_target :: TaskTarget where
  "ex_target = NameVariant ''n'' ''NameVariant''"

definition ex_task :: TaskMetadata where
  "ex_task =
     \<lparr>task_ID = 1, task_Name = ''etl'', task_TaskType = ''ResourceCreation'',
      task_Target = Some ex_target, task_TargetType = ''NameVariant'',
      task_DateCreated = ex_ten\<rparr>"

text \<open>
  The text of a key before the first occurrence of a separator (the whole key when there
  is none), and the text after it. A listed key is unreadable when it has no
  \<open>task_id=\<close>, or when the text from its first \<open>task_id=\<close> up to the next one does not
  parse as an integer.
\<close>

fun before_sep :: "string \<Rightarrow> string \<Rightarrow> string" where
  "before_sep sep [] = []"
| "before_sep sep (c # cs) = (if prefix sep (c # cs) then [] else c # before_sep sep cs)"

fun after_sep :: "string \<Rightarrow> string \<Rightarrow> string option" where
  "after_sep sep [] = (if sep = [] then Some [] else None)"
| "after_sep sep (c # cs) =
     (if prefix sep (c # cs) then Some (drop (length sep) (c # cs)) else after_sep sep cs)"

definition unreadable_key :: "string \<Rightarrow> bool" where
  "unreadable_key key =
     (case after_sep ''task_id='' key of
        None \<Rightarrow> True
      | Some rest \<Rightarrow> isl (Atoi (before_sep ''task_id='' rest)))"

definition ex_two_ids :: store where
  "ex_two_ids =
     \<lparr>entries = [(''/tasks/metadata/task_id=5task_id=x'', JNull)], failFast = False,
      faulty = []\<rparr>"

definition ex_task6 :: TaskMetadata where
  "ex_task6 =
     \<lparr>task_ID = 6, task_Name = ''etl'', task_TaskType = ''ResourceCreation'',
      task_Target = Some ex_target, task_TargetType = ''NameVariant'',
      task_DateCreated = ex_ten\<rparr>"

definition ex_bad_key :: store where
  "ex_bad_key =
     \<lparr>entries = [(''/tasks/metadata/task_id=1'', JNull), (''/tasks/metadata/task_id=x'', JNull)],
      failFast = False, faulty = []\<rparr>"

section \<open>Serialization: round trip and rejected documents\<close>

lemma sint32_ge: "- 2147483648 \<le> sint (w :: 32 word)"
  using sint_ge [of w] by simp

lemma sint32_lt: "sint (w :: 32 word) < 2147483648"
  using sint_lt [of w] by simp

lemma dec_time_enc_time: "enc_time t = Inr j \<Longrightarrow> dec_time (Some j) = Inr t"
  by (auto simp: enc_time_def split: if_splits)

lemma enc_time_legal: "legal_time t \<Longrightarrow> enc_time t = Inr (JTime t)"
  by (simp add: enc_time_def legal_time_def)

lemma dec_TaskRunSimple_Marshal:
  "Marshal_TaskRunSimple r = Inr j \<Longrightarrow> dec_TaskRunSimple (Some j) = Inr r"
  by (cases "enc_time (DateCreated r)")
     (auto simp: Marshal_TaskRunSimple_def field_def sint32_ge sint32_lt dec_time_enc_time)

lemma dec_list_enc_list:
  "enc_list Marshal_TaskRunSimple xs = Inr js \<Longrightarrow> dec_list dec_TaskRunSimple js = Inr xs"
proof (induction xs arbitrary: js)
  case Nil
  then show ?case by simp
next
  case (Cons x xs)
  then show ?case
    by (auto split: sum.splits simp: dec_TaskRunSimple_Marshal)
qed

lemma Unmarshal_Marshal_TaskRuns:
  "Marshal_TaskRuns rs = Inr j \<Longrightarrow> Unmarshal_TaskRuns j = Inr rs"
  by (cases "enc_list Marshal_TaskRunSimple (Runs rs)")
     (auto simp: Marshal_TaskRuns_def field_def sint32_ge sint32_lt dec_list_enc_list)

lemma dec_list_strings: "dec_list dec_string (map JStr xs) = Inr xs"
  by (induction xs) auto

lemma dec_array_enc_strings: "dec_array dec_string (Some (enc_strings xs)) = Inr xs"
  by (simp add: enc_strings_def dec_list_strings)

lemma dec_status_String: "dec_status (Some (JStr (status_String st))) = Inr st"
  by (cases st) (simp_all add: dec_status_def)

lemma dec_trigger_enc: "legal_trigger tr \<Longrightarrow> dec_trigger (enc_trigger (Some tr)) = Inr tr"
  by (cases tr) (simp_all add: legal_trigger_def field_def oneOffTrigger_def dummyTrigger_def)

lemma Unmarshal_Marshal_TaskRunMetadata:
  assumes "Marshal_TaskRunMetadata m = Inr j" and "Trigger m = Some tr" and "legal_trigger tr"
  shows "Unmarshal_TaskRunMetadata j = Inr m"
proof -
  from assms(1) obtain st en where st: "enc_time (StartTime m) = Inr st"
    and en: "enc_time (EndTime m) = Inr en"
    and j: "j = JObj [(''id'', JNum (sint (ID m))),
                  (''TaskId'', JNum (sint (TaskId m))),
                  (''name'', JStr (Name m)),
                  (''trigger'', enc_trigger (Trigger m)),
                  (''triggerType'', JStr (TriggerType m)),
                  (''status'', JStr (status_String (Status m))),
                  (''startTime'', st),
                  (''endTime'', en),
                  (''logs'', enc_strings (Logs m)),
                  (''error'', JStr (Error m))]"
    by (cases "enc_time (StartTime m)"; cases "enc_time (EndTime m)")
       (auto simp: Marshal_TaskRunMetadata_def)
  show ?thesis
    unfolding j
    using assms(2,3)
    by (simp add: field_def dec_trigger_enc dec_status_String sint32_ge sint32_lt
        dec_time_enc_time [OF st] dec_time_enc_time [OF en] dec_array_enc_strings)
qed

lemma Marshal_TaskRunMetadata_legal:
  "legal_time (StartTime m) \<Longrightarrow> legal_time (EndTime m) \<Longrightarrow>
   \<exists>j. Marshal_TaskRunMetadata m = Inr j"
  by (simp add: Marshal_TaskRunMetadata_def enc_time_legal)

text \<open>
  C5: for each trigger variant (one-off, dummy) with legal field values, decoding the
  encoding of a run record that holds the trigger gives back the record, equal in every
  field, and the \<open>Type()\<close> of the decoded trigger is the tag of the variant.
\<close>

theorem C5_trigger_round_trip:
  assumes "Trigger m = Some tr" and "legal_trigger tr"
    and "legal_time (StartTime m)" and "legal_time (EndTime m)"
  shows "\<exists>j m'. Marshal_TaskRunMetadata m = Inr j \<and> Unmarshal_TaskRunMetadata j = Inr m'
           \<and> m' = m \<and> map_option trigger_Type (Trigger m') = Some (variant_tag tr)"
proof -
  from assms(3,4) obtain j where j: "Marshal_TaskRunMetadata m = Inr j"
    using Marshal_TaskRunMetadata_legal by blast
  have "Unmarshal_TaskRunMetadata j = Inr m"
    using j assms(1,2) by (rule Unmarshal_Marshal_TaskRunMetadata)
  moreover have "map_option trigger_Type (Trigger m) = Some (variant_tag tr)"
    using assms(1,2) by (simp add: legal_trigger_def)
  ultimately show ?thesis using j by blast
qed

theorem C5_trigger_round_trip_witness:
  "(\<exists>j m'. Marshal_TaskRunMetadata ex_oneoff_run = Inr j
       \<and> Unmarshal_TaskRunMetadata j = Inr m' \<and> m' = ex_oneoff_run
       \<and> map_option trigger_Type (Trigger m') = Some ''OneOffTrigger'')
   \<and> (\<exists>j m'. Marshal_TaskRunMetadata ex_run = Inr j
       \<and> Unmarshal_TaskRunMetadata j = Inr m' \<and> m' = ex_run
       \<and> map_option trigger_Type (Trigger m') = Some ''DummyTrigger'')"
  using C5_trigger_round_trip [of ex_oneoff_run "OneOffTrigger ''name1'' ''OneOffTrigger''"]
    C5_trigger_round_trip [of ex_run "DummyTrigger ''name2'' ''DummyTrigger'' True"]
  by (simp add: ex_run_def ex_oneoff_run_def legal_trigger_def legal_time_def ex_ten_def
      ex_noon_def dummyTrigger_def oneOffTrigger_def)

lemma dec_status_unknown:
  "v \<notin> set status_names \<Longrightarrow>
   dec_status (Some (JStr v)) = Inl (Errorf (''No such status: '' @ squote v))"
  by (auto simp: dec_status_def status_names_def)

lemma Unmarshal_no_trigger: "field fs ''trigger'' = None \<Longrightarrow> isl (Unmarshal_TaskRunMetadata (JObj fs))"
  by (cases "field fs ''name''") simp_all

lemma Unmarshal_array_trigger:
  "field fs ''trigger'' = Some (JArr xs) \<Longrightarrow> isl (Unmarshal_TaskRunMetadata (JObj fs))"
  by (cases "field fs ''name''") simp_all

lemma Unmarshal_unknown_status:
  assumes "field fs ''status'' = Some (JStr v)" and "v \<notin> set status_names"
  shows "isl (Unmarshal_TaskRunMetadata (JObj fs))"
proof (cases "field fs ''name''")
  case None
  then show ?thesis by simp
next
  case (Some nm)
  show ?thesis
  proof (cases "field fs ''trigger''")
    case None
    then show ?thesis by (rule Unmarshal_no_trigger)
  next
    case (Some tj)
    show ?thesis
    proof (cases "dec_trigger tj")
      case (Inl e)
      with Some \<open>field fs ''name'' = Some nm\<close> show ?thesis by simp
    next
      case (Inr tr)
      with Some \<open>field fs ''name'' = Some nm\<close> assms show ?thesis
        by (simp add: dec_status_unknown)
    qed
  qed
qed

text \<open>
  C6: decoding a run record never succeeds on a document without the member \<open>name\<close>
  (the error is \<open>Missing field 'name'\<close>), on one without the member \<open>trigger\<close>
  (\<open>Missing field 'trigger'\<close>), on one whose \<open>trigger\<close> is an array (\<open>Wrong format of
  Trigger\<close>), and on one whose \<open>status\<close> is a text outside the closed set (\<open>No such
  status: '<value>'\<close>). The message is the named one when no earlier check of the
  decoder fails first.
\<close>

theorem C6_rejected_documents:
  "(field fs ''name'' = None \<longrightarrow>
      Unmarshal_TaskRunMetadata (JObj fs) = Inl (Errorf (''Missing field '' @ squote ''name'')))
   \<and> (field fs ''trigger'' = None \<longrightarrow>
      isl (Unmarshal_TaskRunMetadata (JObj fs))
      \<and> (field fs ''name'' \<noteq> None \<longrightarrow>
           Unmarshal_TaskRunMetadata (JObj fs)
             = Inl (Errorf (''Missing field '' @ squote ''trigger''))))
   \<and> (field fs ''trigger'' = Some (JArr xs) \<longrightarrow>
      isl (Unmarshal_TaskRunMetadata (JObj fs))
      \<and> (field fs ''name'' \<noteq> None \<longrightarrow>
           Unmarshal_TaskRunMetadata (JObj fs) = Inl (Errorf ''Wrong format of Trigger'')))
   \<and> (field fs ''status'' = Some (JStr v) \<and> v \<notin> set status_names \<longrightarrow>
      isl (Unmarshal_TaskRunMetadata (JObj fs))
      \<and> (field fs ''name'' \<noteq> None \<and> field fs ''trigger'' = Some tj \<and> dec_trigger tj = Inr tr \<longrightarrow>
           Unmarshal_TaskRunMetadata (JObj fs)
             = Inl (Errorf (''No such status: '' @ squote v))))"
proof (intro conjI impI)
  assume "field fs ''name'' = None"
  then show "Unmarshal_TaskRunMetadata (JObj fs) = Inl (Errorf (''Missing field '' @ squote ''name''))"
    by simp
next
  assume "field fs ''trigger'' = None"
  then show "isl (Unmarshal_TaskRunMetadata (JObj fs))" by (rule Unmarshal_no_trigger)
next
  assume "field fs ''trigger'' = None" and "field fs ''name'' \<noteq> None"
  then show "Unmarshal_TaskRunMetadata (JObj fs) = Inl (Errorf (''Missing field '' @ squote ''trigger''))"
    by auto
next
  assume "field fs ''trigger'' = Some (JArr xs)"
  then show "isl (Unmarshal_TaskRunMetadata (JObj fs))" by (rule Unmarshal_array_trigger)
next
  assume "field fs ''trigger'' = Some (JArr xs)" and "field fs ''name'' \<noteq> None"
  then show "Unmarshal_TaskRunMetadata (JObj fs) = Inl (Errorf ''Wrong format of Trigger'')"
    by auto
next
  assume "field fs ''status'' = Some (JStr v) \<and> v \<notin> set status_names"
  then show "isl (Unmarshal_TaskRunMetadata (JObj fs))"
    using Unmarshal_unknown_status by blast
next
  assume "field fs ''status'' = Some (JStr v) \<and> v \<notin> set status_names"
    and "field fs ''name'' \<noteq> None \<and> field fs ''trigger'' = Some tj \<and> dec_trigger tj = Inr tr"
  then show "Unmarshal_TaskRunMetadata (JObj fs) = Inl (Errorf (''No such status: '' @ squote v))"
    by (auto simp: dec_status_unknown)
qed

lemma ex_fields:
  "field ex_missing_name ''name'' = None"
  "field ex_missing_trigger ''trigger'' = None"
  "field ex_missing_trigger ''name'' = Some (JStr ''invalid_json_file'')"
  "field ex_array_trigger ''trigger'' = Some (JArr [JStr ''name8'', JStr ''DummyTrigger'', JBool False])"
  "field ex_array_trigger ''name'' = Some (JStr ''invalid_json_file'')"
  "field ex_bad_status ''status'' = Some (JStr ''NOSTATUS'')"
  "field ex_bad_status ''name'' = Some (JStr ''invalid_json_file'')"
  "field ex_bad_status ''trigger'' = Some ex_trigger_doc"
  by (simp_all add: field_def ex_missing_name_def ex_missing_trigger_def ex_array_trigger_def
      ex_bad_status_def ex_tail_def)

lemma ex_trigger_doc_ok: "dec_trigger ex_trigger_doc = Inr (OneOffTrigger ''name5'' ''OneOffTrigger'')"
  by (simp add: ex_trigger_doc_def field_def oneOffTrigger_def)

theorem C6_rejected_documents_witness:
  "Unmarshal_TaskRunMetadata (JObj ex_missing_name)
     = Inl (Errorf (''Missing field '' @ squote ''name''))
   \<and> Unmarshal_TaskRunMetadata (JObj ex_missing_trigger)
     = Inl (Errorf (''Missing field '' @ squote ''trigger''))
   \<and> Unmarshal_TaskRunMetadata (JObj ex_array_trigger) = Inl (Errorf ''Wrong format of Trigger'')
   \<and> Unmarshal_TaskRunMetadata (JObj ex_bad_status)
     = Inl (Errorf (''No such status: '' @ squote ''NOSTATUS''))"
  using C6_rejected_documents [of ex_missing_name "[]" "[]" JNull "OneOffTrigger [] []"]
    C6_rejected_documents [of ex_missing_trigger "[]" "[]" JNull "OneOffTrigger [] []"]
    C6_rejected_documents [of ex_array_trigger
      "[JStr ''name8'', JStr ''DummyTrigger'', JBool False]" "[]" JNull "OneOffTrigger [] []"]
    C6_rejected_documents [of ex_bad_status "[]" "''NOSTATUS''" ex_trigger_doc
      "OneOffTrigger ''name5'' ''OneOffTrigger''"]
  by (simp add: ex_fields ex_trigger_doc_ok status_names_def)

section \<open>The task manager on a store\<close>

lemma fmt_d_values: "fmt_d 1 = ''1''" "fmt_d 15 = ''15''" "fmt_d 2024 = ''2024''" "fmt_d 65 = ''65''"
  by code_simp+

lemma ex_keys:
  "runs_index_key 1 = ''/tasks/runs/task_id=1''"
  "day_prefix ex_ten = ''tasks/runs/metadata/2024/March/15''"
  "run_detail_key ex_noon 1 1 = ''tasks/runs/metadata/2024/March/15/task_id=1/run_id=1''"
  "GetTaskMetadataKey TASKMETADATA 65 = ''/tasks/metadata/task_id=65''"
  by (simp_all add: runs_index_key_def day_prefix_def run_detail_key_def ex_ten_def ex_noon_def
      fmt_d_values GetTaskMetadataKey_def TASKMETADATA_def)

lemma ex_noon_doc_decodes: "Unmarshal_TaskRunMetadata ex_noon_doc = Inr ex_noon_run"
  by (simp add: ex_noon_doc_def ex_noon_run_def field_def dec_status_def oneOffTrigger_def ex_trigger_def)

lemma ex_index1_decodes:
  "Unmarshal_TaskRuns ex_index1 = Inr \<lparr>TaskID = 1, Runs = [\<lparr>RunID = 1, DateCreated = ex_noon\<rparr>]\<rparr>"
  by (simp add: ex_index1_def field_def)

lemma runs_by_date_loop_filter:
  "map Unmarshal_TaskRunMetadata recs = map Inr runs \<Longrightarrow>
   runs_by_date_loop start acc recs
     = Inr (acc @ filter (\<lambda>r. \<not> After (StartTime r) start) runs)"
proof (induction recs arbitrary: acc runs)
  case Nil
  then show ?case by simp
next
  case (Cons doc recs)
  then obtain r rs where runs: "runs = r # rs" and r: "Unmarshal_TaskRunMetadata doc = Inr r"
    and rs: "map Unmarshal_TaskRunMetadata recs = map Inr rs"
    by (cases runs) auto
  show ?case
    unfolding runs using r Cons.IH [OF rs] by simp
qed

text \<open>
  C1: the claim is that a run decoded from the day-prefix scan of \<open>start\<close> is returned
  exactly when \<open>start \<le> StartTime \<le> end\<close>. The code returns the decoded runs that do
  not start after \<open>start\<close>, whatever \<open>end\<close> is: a run that starts between \<open>start\<close> and
  \<open>end\<close> is left out.
\<close>

theorem C1_runs_by_date_keeps_runs_not_after_start:
  assumes "storage_Get s (day_prefix start) True = Inr recs"
    and "map Unmarshal_TaskRunMetadata recs = map Inr runs"
  shows "GetRunsByDate s start end
           = Inr (filter (\<lambda>r. \<not> After (StartTime r) start) runs)"
  using assms runs_by_date_loop_filter [of recs runs start "[]"]
  by (simp add: GetRunsByDate_def)

theorem C1_run_within_range_left_out:
  "GetRunsByDate ex_day ex_ten ex_two = Inr []
   \<and> storage_Get ex_day (day_prefix ex_ten) True = Inr [ex_noon_doc]
   \<and> Unmarshal_TaskRunMetadata ex_noon_doc = Inr ex_noon_run
   \<and> \<not> Before (StartTime ex_noon_run) ex_ten \<and> \<not> After (StartTime ex_noon_run) ex_two"
proof -
  have g: "storage_Get ex_day (day_prefix ex_ten) True = Inr [ex_noon_doc]"
    by (simp add: storage_Get_def ex_day_def ex_keys)
  have m: "map Unmarshal_TaskRunMetadata [ex_noon_doc] = map Inr [ex_noon_run]"
    by (simp add: ex_noon_doc_decodes)
  have a: "After (StartTime ex_noon_run) ex_ten"
    by (simp add: After_def Before_def ex_noon_run_def ex_noon_def ex_ten_def)
  have b: "\<not> Before (StartTime ex_noon_run) ex_ten \<and> \<not> After (StartTime ex_noon_run) ex_two"
    by (simp add: After_def Before_def ex_noon_run_def ex_noon_def ex_ten_def ex_two_def)
  show ?thesis
    using C1_runs_by_date_keeps_runs_not_after_start [OF g m, of ex_two] a b g
    by (simp add: ex_noon_doc_decodes)
qed

text \<open>
  C2: the claim is that a runs-index entry whose detail key is absent makes \<open>GetRunByID\<close>
  return a not-found error without crashing. The code indexes the result of \<open>Get\<close>
  unchecked: with a provider that answers a missing key with an empty result it panics,
  and only with one that fails fast it returns the provider's error.
\<close>

theorem C2_missing_detail:
  assumes "storage_Get s (runs_index_key taskID) False = Inr (k0 # ks)"
    and "Unmarshal_TaskRuns k0 = Inr runs"
    and "find_run runID (Runs runs) = Some r"
    and "map_of (entries s) (run_detail_key (DateCreated r) taskID (RunID r)) = None"
    and "run_detail_key (DateCreated r) taskID (RunID r) \<notin> set (faulty s)"
  shows "GetRunByID s taskID runID
           = (if failFast s
              then Inl (KeyNotFound (run_detail_key (DateCreated r) taskID (RunID r)))
              else Inl (Panic IndexOutOfRange))"
  using assms by (simp add: GetRunByID_def storage_Get_def)

theorem C2_missing_detail_panics:
  "GetRunByID ex_dangling 1 1 = Inl (Panic IndexOutOfRange)
   \<and> crashed (GetRunByID ex_dangling 1 1)
   \<and> storage_Get ex_dangling (runs_index_key 1) False = Inr [ex_index1]
   \<and> map_of (entries ex_dangling) (run_detail_key ex_noon 1 1) = None"
proof -
  have g: "storage_Get ex_dangling (runs_index_key 1) False = Inr [ex_index1]"
    by (simp add: storage_Get_def ex_dangling_def ex_keys)
  have f: "find_run 1 (Runs \<lparr>TaskID = 1, Runs = [\<lparr>RunID = 1, DateCreated = ex_noon\<rparr>]\<rparr>)
             = Some \<lparr>RunID = 1, DateCreated = ex_noon\<rparr>"
    by simp
  have n: "map_of (entries ex_dangling) (run_detail_key ex_noon 1 1) = None"
    by (simp add: ex_dangling_def ex_keys)
  show ?thesis
    using C2_missing_detail [OF g ex_index1_decodes f] n g
    by (simp add: ex_dangling_def)
qed

text \<open>
  C4: the claim is that the not-found error of \<open>GetTaskByID\<close> carries the identifier, as
  in \<open>task not found for id: <id>\<close>. The code formats \<open>string(id)\<close> with \<open>%s\<close>: the message
  ends with the character whose code point is the identifier, not with its digits.
\<close>

theorem C4_task_not_found_message:
  assumes "map_of (entries s) (GetTaskMetadataKey TASKMETADATA i) = None"
    and "GetTaskMetadataKey TASKMETADATA i \<notin> set (faulty s)"
    and "\<not> failFast s"
  shows "GetTaskByID s i = Inl (Errorf (''task not found for id: '' @ utf8_encode (sint i)))"
  using assms by (simp add: GetTaskByID_def storage_Get_def)

lemma utf8_encode_65: "utf8_encode 65 = ''A''"
  by code_simp

theorem C4_message_for_65:
  "GetTaskByID ex_empty 65 = Inl (Errorf ''task not found for id: A'')
   \<and> fmt_d (sint (65 :: 32 word)) = ''65''
   \<and> \<not> Contains ''task not found for id: A'' ''65''"
  using C4_task_not_found_message [of ex_empty 65]
  by (simp add: ex_empty_def utf8_encode_65 fmt_d_values)

lemma storage_Set_Inr:
  "storage_Set s k v = Inr s1 \<Longrightarrow>
   k \<notin> set (faulty s) \<and> s1 = s\<lparr>entries := AList.update k v (entries s)\<rparr>"
  by (auto simp: storage_Set_def split: if_splits)

lemma detail_key_not_index_key: "run_detail_key t a b \<noteq> runs_index_key c"
  by (simp add: run_detail_key_def day_prefix_def runs_index_key_def)

lemma CreateTaskRun_success:
  assumes "CreateTaskRun s now name taskID trigger = (s', Inr md)"
  shows "\<exists>k0 ks runs latestID tr j1 j2 s1.
      storage_Get s (runs_index_key taskID) False = Inr (k0 # ks)
    \<and> Unmarshal_TaskRuns k0 = Inr runs
    \<and> getHighestRunID runs = Inr latestID
    \<and> trigger = Some tr
    \<and> md = \<lparr>ID = latestID + 1, TaskId = taskID, Name = name, Trigger = Some tr,
             TriggerType = trigger_Type tr, Status = Pending, StartTime = now,
             EndTime = zero_time, Logs = [], Error = []\<rparr>
    \<and> Marshal_TaskRuns (runs\<lparr>Runs := Runs runs @ [\<lparr>RunID = latestID + 1, DateCreated = now\<rparr>]\<rparr>) = Inr j1
    \<and> Marshal_TaskRunMetadata md = Inr j2
    \<and> storage_Set s (runs_index_key taskID) j1 = Inr s1
    \<and> storage_Set s1 (run_detail_key now taskID (latestID + 1)) j2 = Inr s'"
  using assms
  by (auto simp: CreateTaskRun_def Let_def split: sum.splits list.splits option.splits)

lemma CreateTaskRun_missing_index:
  assumes "map_of (entries s) (runs_index_key taskID) = None"
    and "runs_index_key taskID \<notin> set (faulty s)"
  shows "CreateTaskRun s now name taskID trigger
           = (s, if failFast s
                 then Inl (ErrorfWrap ''failed to fetch task: '' (KeyNotFound (runs_index_key taskID)))
                 else Inl (Panic IndexOutOfRange))"
  using assms by (simp add: CreateTaskRun_def storage_Get_def)

lemma GetRunByID_missing_index:
  assumes "map_of (entries s) (runs_index_key taskID) = None"
    and "runs_index_key taskID \<notin> set (faulty s)"
  shows "GetRunByID s taskID runID
           = (if failFast s
              then Inl (ErrorfWrap ''failed to fetch task: '' (KeyNotFound (runs_index_key taskID)))
              else Inl (Panic IndexOutOfRange))"
  using assms by (simp add: GetRunByID_def storage_Get_def)

text \<open>
  C3, as amended: when the runs-index key of a task is absent and the provider reports a
  missing key as an error, \<open>CreateTaskRun\<close> and \<open>GetRunByID\<close> return the error
  \<open>failed to fetch task: ...\<close> and leave the store as it was. The missing index is not
  read as an empty list of runs.
\<close>

theorem C3_missing_index_is_an_error:
  assumes "map_of (entries s) (runs_index_key taskID) = None"
    and "runs_index_key taskID \<notin> set (faulty s)"
    and "failFast s"
  shows "CreateTaskRun s now name taskID trigger
           = (s, Inl (ErrorfWrap ''failed to fetch task: '' (KeyNotFound (runs_index_key taskID))))
         \<and> GetRunByID s taskID runID
           = Inl (ErrorfWrap ''failed to fetch task: '' (KeyNotFound (runs_index_key taskID)))"
  using assms by (simp add: CreateTaskRun_missing_index GetRunByID_missing_index)

theorem C3_missing_index_is_an_error_witness:
  "CreateTaskRun ex_failfast ex_ten ''first'' 1 (Some ex_trigger)
     = (ex_failfast, Inl (ErrorfWrap ''failed to fetch task: '' (KeyNotFound ''/tasks/runs/task_id=1'')))
   \<and> GetRunByID ex_failfast 1 1
     = Inl (ErrorfWrap ''failed to fetch task: '' (KeyNotFound ''/tasks/runs/task_id=1''))"
  using C3_missing_index_is_an_error [of ex_failfast 1 ex_ten "''first''" "Some ex_trigger" 1]
  by (simp add: ex_failfast_def ex_keys)

lemma ex_index0_decodes: "Unmarshal_TaskRuns ex_index0 = Inr \<lparr>TaskID = 1, Runs = []\<rparr>"
  by (simp add: ex_index0_def field_def)

lemma ex_legal_times:
  "legal_time ex_ten" "legal_time ex_noon" "legal_time ex_two" "legal_time zero_time"
  by (simp_all add: legal_time_def ex_ten_def ex_noon_def ex_two_def zero_time_def)

lemma ex_first_run:
  "snd (CreateTaskRun ex_indexed ex_noon ''first'' 1 (Some ex_trigger)) = Inr ex_noon_run"
  by (simp add: CreateTaskRun_def Let_def storage_Get_def ex_indexed_def ex_keys
      ex_index0_decodes getHighestRunID_def Marshal_TaskRuns_def Marshal_TaskRunSimple_def
      enc_time_legal ex_legal_times Marshal_TaskRunMetadata_def storage_Set_def
      ex_noon_run_def ex_trigger_def)

text \<open>
  C3 as stated fails: on a store without the index key neither operation does what it
  does on a store whose index is the empty list (a first run with identifier 1, and
  \<open>run not found\<close>). With an empty result for the missing key both panic, with a
  fail-fast provider both return the provider's error.
\<close>

theorem C3_missing_index_not_read_as_empty:
  "snd (CreateTaskRun ex_empty ex_noon ''first'' 1 (Some ex_trigger)) = Inl (Panic IndexOutOfRange)
   \<and> GetRunByID ex_empty 1 1 = Inl (Panic IndexOutOfRange)
   \<and> snd (CreateTaskRun ex_failfast ex_noon ''first'' 1 (Some ex_trigger))
       = Inl (ErrorfWrap ''failed to fetch task: '' (KeyNotFound ''/tasks/runs/task_id=1''))
   \<and> GetRunByID ex_failfast 1 1
       = Inl (ErrorfWrap ''failed to fetch task: '' (KeyNotFound ''/tasks/runs/task_id=1''))
   \<and> snd (CreateTaskRun ex_indexed ex_noon ''first'' 1 (Some ex_trigger)) = Inr ex_noon_run
   \<and> GetRunByID ex_indexed 1 1 = Inl (Errorf ''run not found'')"
proof -
  have "GetRunByID ex_indexed 1 1 = Inl (Errorf ''run not found'')"
    by (simp add: GetRunByID_def storage_Get_def ex_indexed_def ex_keys ex_index0_decodes)
  moreover have "map_of (entries ex_empty) (runs_index_key 1) = None"
    and "map_of (entries ex_failfast) (runs_index_key 1) = None"
    by (simp_all add: ex_empty_def ex_failfast_def)
  ultimately show ?thesis
    by (simp add: CreateTaskRun_missing_index GetRunByID_missing_index ex_first_run ex_keys
        ex_empty_def ex_failfast_def)
qed

section \<open>Run identifiers\<close>

lemma highest_loop_ge_start: "sint h \<le> sint (highest_loop h xs)"
proof (induction xs arbitrary: h)
  case Nil
  then show ?case by simp
next
  case (Cons x xs)
  have "sint h \<le> sint (if h <s RunID x then RunID x else h)"
    by (simp add: word_sless_alt)
  also have "\<dots> \<le> sint (highest_loop (if h <s RunID x then RunID x else h) xs)"
    by (rule Cons.IH)
  finally show ?case by simp
qed

lemma highest_loop_ge: "r \<in> set xs \<Longrightarrow> sint (RunID r) \<le> sint (highest_loop h xs)"
proof (induction xs arbitrary: h)
  case Nil
  then show ?case by simp
next
  case (Cons x xs)
  show ?case
  proof (cases "r = x")
    case True
    have "sint (RunID x) \<le> sint (if h <s RunID x then RunID x else h)"
      by (simp add: word_sless_alt)
    also have "\<dots> \<le> sint (highest_loop (if h <s RunID x then RunID x else h) xs)"
      by (rule highest_loop_ge_start)
    finally show ?thesis using True by simp
  next
    case False
    with Cons.prems have "r \<in> set xs" by simp
    then show ?thesis using Cons.IH by simp
  qed
qed

lemma highest_loop_mem: "highest_loop h xs = h \<or> highest_loop h xs \<in> RunID ` set xs"
proof (induction xs arbitrary: h)
  case Nil
  then show ?case by simp
next
  case (Cons x xs)
  from Cons.IH [of "if h <s RunID x then RunID x else h"] show ?case
    by (auto split: if_splits)
qed

lemma getHighestRunID_empty: "Runs runs = [] \<Longrightarrow> getHighestRunID runs = Inr 0"
  by (simp add: getHighestRunID_def)

lemma getHighestRunID_max:
  assumes "Runs runs \<noteq> []" and "getHighestRunID runs = Inr latestID"
  shows "\<exists>m \<in> set (Runs runs). latestID = RunID m
           \<and> (\<forall>r \<in> set (Runs runs). sint (RunID r) \<le> sint (RunID m))"
proof -
  from assms(1) obtain r0 rest where rs: "Runs runs = r0 # rest" by (cases "Runs runs") auto
  with assms(2) have l: "latestID = highest_loop (RunID r0) rest"
    by (simp add: getHighestRunID_def)
  have mem: "latestID \<in> RunID ` set (Runs runs)"
    using highest_loop_mem [of "RunID r0" rest] by (auto simp: l rs)
  have ge: "\<forall>r \<in> set (Runs runs). sint (RunID r) \<le> sint latestID"
    using highest_loop_ge [of _ rest "RunID r0"] highest_loop_ge_start [of "RunID r0" rest]
    by (auto simp: l rs)
  from mem ge show ?thesis by auto
qed

lemma sint_succ:
  assumes "(w :: 32 word) \<noteq> 2147483647"
  shows "sint (w + 1) = sint w + 1"
proof -
  have "sint w \<noteq> 2147483647"
  proof
    assume "sint w = 2147483647"
    then have "word_of_int (sint w) = (word_of_int 2147483647 :: 32 word)" by simp
    then have "w = 2147483647" by simp
    with assms show False by simp
  qed
  with sint32_lt [of w] have lt: "sint w < 2147483647" by simp
  have "sint (w + 1) = signed_take_bit 31 (sint w + 1)"
    by (simp add: sint_word_ariths)
  also have "\<dots> = sint w + 1"
    using lt sint32_ge [of w] by (simp add: signed_take_bit_int_eq_self)
  finally show ?thesis .
qed

lemma storage_Get_after_create:
  assumes "storage_Set s ik j1 = Inr s1" and "storage_Set s1 dk j2 = Inr s'" and "dk \<noteq> ik"
  shows "storage_Get s' ik False = Inr [j1]"
  using assms
  by (auto simp: storage_Set_def storage_Get_def update_conv' split: if_splits)

lemma getHighestRunID_Max:
  assumes "Runs runs \<noteq> []" and "getHighestRunID runs = Inr latestID"
  shows "sint latestID = Max ((\<lambda>r. sint (RunID r)) ` set (Runs runs))"
proof -
  from getHighestRunID_max [OF assms] obtain m where
    m: "m \<in> set (Runs runs)" "latestID = RunID m"
    and top: "\<forall>r \<in> set (Runs runs). sint (RunID r) \<le> sint (RunID m)"
    by blast
  have "Max ((\<lambda>r. sint (RunID r)) ` set (Runs runs)) = sint (RunID m)"
  proof (rule Max_eqI)
    show "finite ((\<lambda>r. sint (RunID r)) ` set (Runs runs))" by simp
    show "\<And>y. y \<in> (\<lambda>r. sint (RunID r)) ` set (Runs runs) \<Longrightarrow> y \<le> sint (RunID m)"
      using top by auto
    show "sint (RunID m) \<in> (\<lambda>r. sint (RunID r)) ` set (Runs runs)"
      using m(1) by auto
  qed
  then show ?thesis by (simp add: m(2))
qed

text \<open>
  C8, as amended: a successful \<open>CreateTaskRun\<close> returns a run with status Pending, no
  logs, the zero end time and the captured time as start time, and the index that it
  leaves in the store is the old one with the single entry \<open>{newRunID, startTime}\<close>
  appended; and when no \<open>RunID\<close> of the index it read is the largest value of the
  identifier type, the identifier of the run is one plus the largest \<open>RunID\<close> of that
  index, as integers (1 when the index is empty).
\<close>

theorem C8_created_run:
  assumes "CreateTaskRun s now name taskID trigger = (s', Inr md)"
  shows "\<exists>k0 ks runs j.
      storage_Get s (runs_index_key taskID) False = Inr (k0 # ks)
    \<and> Unmarshal_TaskRuns k0 = Inr runs
    \<and> ((\<forall>r \<in> set (Runs runs). RunID r \<noteq> 2147483647) \<longrightarrow>
         sint (ID md)
           = (if Runs runs = [] then 1
              else Max ((\<lambda>r. sint (RunID r)) ` set (Runs runs)) + 1))
    \<and> Status md = Pending \<and> Logs md = [] \<and> EndTime md = zero_time \<and> StartTime md = now
    \<and> storage_Get s' (runs_index_key taskID) False = Inr [j]
    \<and> Unmarshal_TaskRuns j
         = Inr (runs\<lparr>Runs := Runs runs @ [\<lparr>RunID = ID md, DateCreated = now\<rparr>]\<rparr>)"
proof -
  from CreateTaskRun_success [OF assms]
  obtain k0 ks runs latestID tr j1 j2 s1 where
    get: "storage_Get s (runs_index_key taskID) False = Inr (k0 # ks)"
    and dec: "Unmarshal_TaskRuns k0 = Inr runs"
    and hi: "getHighestRunID runs = Inr latestID"
    and md: "md = \<lparr>ID = latestID + 1, TaskId = taskID, Name = name, Trigger = Some tr,
             TriggerType = trigger_Type tr, Status = Pending, StartTime = now,
             EndTime = zero_time, Logs = [], Error = []\<rparr>"
    and m1: "Marshal_TaskRuns (runs\<lparr>Runs := Runs runs @ [\<lparr>RunID = latestID + 1, DateCreated = now\<rparr>]\<rparr>) = Inr j1"
    and w1: "storage_Set s (runs_index_key taskID) j1 = Inr s1"
    and w2: "storage_Set s1 (run_detail_key now taskID (latestID + 1)) j2 = Inr s'"
    by blast
  have id: "ID md = latestID + 1" by (simp add: md)
  have n: "(\<forall>r \<in> set (Runs runs). RunID r \<noteq> 2147483647) \<longrightarrow>
         sint (ID md)
           = (if Runs runs = [] then 1
              else Max ((\<lambda>r. sint (RunID r)) ` set (Runs runs)) + 1)"
  proof
    assume below: "\<forall>r \<in> set (Runs runs). RunID r \<noteq> 2147483647"
    show "sint (ID md)
           = (if Runs runs = [] then 1
              else Max ((\<lambda>r. sint (RunID r)) ` set (Runs runs)) + 1)"
    proof (cases "Runs runs = []")
      case True
      with hi show ?thesis by (simp add: getHighestRunID_empty id)
    next
      case False
      from getHighestRunID_max [OF False hi] below have "latestID \<noteq> 2147483647" by auto
      then have "sint (ID md) = sint latestID + 1"
        using sint_succ [of latestID] by (simp add: id)
      with False getHighestRunID_Max [OF False hi] show ?thesis by simp
    qed
  qed
  have g: "storage_Get s' (runs_index_key taskID) False = Inr [j1]"
    using w1 w2 detail_key_not_index_key by (rule storage_Get_after_create)
  have u: "Unmarshal_TaskRuns j1
         = Inr (runs\<lparr>Runs := Runs runs @ [\<lparr>RunID = ID md, DateCreated = now\<rparr>]\<rparr>)"
    using Unmarshal_Marshal_TaskRuns [OF m1] by (simp add: id)
  have f: "Status md = Pending \<and> Logs md = [] \<and> EndTime md = zero_time \<and> StartTime md = now"
    by (simp add: md)
  from get dec n f g u show ?thesis by blast
qed

lemma fmt_d_2: "fmt_d 2 = ''2''"
  by code_simp

lemma ex_keys_2:
  "run_detail_key ex_two 1 2 = ''tasks/runs/metadata/2024/March/15/task_id=1/run_id=2''"
  by (simp add: run_detail_key_def day_prefix_def ex_two_def fmt_d_values fmt_d_2)

lemma ex_second_created:
  "CreateTaskRun ex_dangling ex_two ''second'' 1 (Some ex_trigger)
     = (ex_after_second, Inr ex_second_run)"
  by (simp add: CreateTaskRun_def Let_def storage_Get_def ex_dangling_def ex_keys ex_keys_2
      ex_index1_decodes getHighestRunID_def Marshal_TaskRuns_def Marshal_TaskRunSimple_def
      enc_time_legal ex_legal_times Marshal_TaskRunMetadata_def storage_Set_def
      ex_second_run_def ex_trigger_def ex_after_second_def ex_index2_def ex_second_doc_def
      enc_strings_def word_sless_alt)

theorem C8_created_run_witness:
  "CreateTaskRun ex_dangling ex_two ''second'' 1 (Some ex_trigger)
     = (ex_after_second, Inr ex_second_run)
   \<and> storage_Get ex_dangling (runs_index_key 1) False = Inr [ex_index1]
   \<and> Unmarshal_TaskRuns ex_index1 = Inr \<lparr>TaskID = 1, Runs = [\<lparr>RunID = 1, DateCreated = ex_noon\<rparr>]\<rparr>
   \<and> RunID \<lparr>RunID = 1, DateCreated = ex_noon\<rparr> \<noteq> 2147483647
   \<and> Max ((\<lambda>r. sint (RunID r)) ` set [\<lparr>RunID = 1, DateCreated = ex_noon\<rparr>]) = 1
   \<and> sint (ID ex_second_run) = 1 + 1
   \<and> Status ex_second_run = Pending \<and> Logs ex_second_run = []
   \<and> EndTime ex_second_run = zero_time \<and> StartTime ex_second_run = ex_two
   \<and> storage_Get ex_after_second (runs_index_key 1) False = Inr [ex_index2]
   \<and> Unmarshal_TaskRuns ex_index2
       = Inr \<lparr>TaskID = 1, Runs = [\<lparr>RunID = 1, DateCreated = ex_noon\<rparr>,
                                  \<lparr>RunID = 2, DateCreated = ex_two\<rparr>]\<rparr>"
  using C8_created_run [OF ex_second_created] ex_second_created ex_index1_decodes
  by (simp add: storage_Get_def ex_dangling_def ex_after_second_def ex_keys ex_second_run_def
      ex_index2_def field_def)

lemma fmt_d_min: "fmt_d (- 2147483648) = ''-2147483648''"
  by code_simp

lemma ex_keys_min:
  "run_detail_key ex_two 1 (- 2147483648)
     = ''tasks/runs/metadata/2024/March/15/task_id=1/run_id=-2147483648''"
  by (simp add: run_detail_key_def day_prefix_def ex_two_def fmt_d_values fmt_d_min)

lemma ex_index_full_decodes:
  "Unmarshal_TaskRuns ex_index_full
     = Inr \<lparr>TaskID = 1, Runs = [\<lparr>RunID = 2147483647, DateCreated = ex_noon\<rparr>]\<rparr>"
  by (simp add: ex_index_full_def field_def)

lemma ex_wrapped_created:
  "snd (CreateTaskRun ex_full ex_two ''next'' 1 (Some ex_trigger)) = Inr ex_wrapped_run"
  by (simp add: CreateTaskRun_def Let_def storage_Get_def ex_full_def ex_keys ex_keys_min
      ex_index_full_decodes getHighestRunID_def Marshal_TaskRuns_def Marshal_TaskRunSimple_def
      enc_time_legal ex_legal_times Marshal_TaskRunMetadata_def storage_Set_def
      ex_wrapped_run_def ex_trigger_def)

text \<open>
  C8 as stated fails at the largest identifier: on an index whose largest \<open>RunID\<close> is
  2147483647 the call succeeds and returns the identifier -2147483648, which is not
  2147483647 + 1.
\<close>

theorem C8_successor_wraps_around:
  "snd (CreateTaskRun ex_full ex_two ''next'' 1 (Some ex_trigger)) = Inr ex_wrapped_run
   \<and> storage_Get ex_full (runs_index_key 1) False = Inr [ex_index_full]
   \<and> Unmarshal_TaskRuns ex_index_full
       = Inr \<lparr>TaskID = 1, Runs = [\<lparr>RunID = 2147483647, DateCreated = ex_noon\<rparr>]\<rparr>
   \<and> Max ((\<lambda>r. sint (RunID r)) ` set [\<lparr>RunID = 2147483647, DateCreated = ex_noon\<rparr>])
       = 2147483647
   \<and> sint (ID ex_wrapped_run) = - 2147483648
   \<and> sint (ID ex_wrapped_run) \<noteq> 2147483647 + 1"
proof -
  have "storage_Get ex_full (runs_index_key 1) False = Inr [ex_index_full]"
    by (simp add: storage_Get_def ex_full_def ex_keys)
  moreover have "sint (ID ex_wrapped_run) = - 2147483648"
    by (simp add: ex_wrapped_run_def)
  ultimately show ?thesis
    by (simp add: ex_wrapped_created ex_index_full_decodes)
qed

text \<open>
  C9, as amended: when no \<open>RunID\<close> of the task's runs index is the largest value of the
  identifier type, the identifier of a run created by \<open>CreateTaskRun\<close> is strictly greater
  than every \<open>RunID\<close> of the index, hence different from each of them.
\<close>

theorem C9_run_id_above_index:
  assumes "CreateTaskRun s now name taskID trigger = (s', Inr md)"
    and "storage_Get s (runs_index_key taskID) False = Inr (k0 # ks)"
    and "Unmarshal_TaskRuns k0 = Inr runs"
    and "\<forall>r \<in> set (Runs runs). RunID r \<noteq> 2147483647"
  shows "(\<forall>r \<in> set (Runs runs). RunID r <s ID md) \<and> ID md \<notin> RunID ` set (Runs runs)"
proof -
  from CreateTaskRun_success [OF assms(1)] assms(2,3)
  obtain latestID where hi: "getHighestRunID runs = Inr latestID" and id: "ID md = latestID + 1"
    by auto
  have above: "\<forall>r \<in> set (Runs runs). RunID r <s ID md"
  proof (cases "Runs runs = []")
    case True
    then show ?thesis by simp
  next
    case False
    from getHighestRunID_max [OF False hi] obtain m where
      m: "m \<in> set (Runs runs)" "latestID = RunID m"
      and top: "\<forall>r \<in> set (Runs runs). sint (RunID r) \<le> sint (RunID m)"
      by blast
    from m assms(4) have "RunID m \<noteq> 2147483647" by blast
    then have "sint (ID md) = sint (RunID m) + 1"
      using sint_succ [of "RunID m"] by (simp add: id m)
    with top show ?thesis by (auto simp: word_sless_alt)
  qed
  then have "ID md \<notin> RunID ` set (Runs runs)"
    by (auto simp: word_sless_alt)
  with above show ?thesis by simp
qed

theorem C9_run_id_above_index_witness:
  "CreateTaskRun ex_dangling ex_two ''second'' 1 (Some ex_trigger)
     = (ex_after_second, Inr ex_second_run)
   \<and> storage_Get ex_dangling (runs_index_key 1) False = Inr [ex_index1]
   \<and> Unmarshal_TaskRuns ex_index1 = Inr \<lparr>TaskID = 1, Runs = [\<lparr>RunID = 1, DateCreated = ex_noon\<rparr>]\<rparr>
   \<and> (1 :: TaskRunID) <s ID ex_second_run \<and> ID ex_second_run \<noteq> 1"
proof -
  have g: "storage_Get ex_dangling (runs_index_key 1) False = Inr [ex_index1]"
    by (simp add: storage_Get_def ex_dangling_def ex_keys)
  show ?thesis
    using C9_run_id_above_index [OF ex_second_created g ex_index1_decodes] ex_second_created g
      ex_index1_decodes
    by simp
qed

text \<open>
  C9 as stated fails at the largest identifier: after a run 2147483647 the next
  identifier wraps around to -2147483648, which is not greater.
\<close>

theorem C9_identifier_wraps_around:
  "storage_Get ex_full (runs_index_key 1) False = Inr [ex_index_full]
   \<and> Unmarshal_TaskRuns ex_index_full
       = Inr \<lparr>TaskID = 1, Runs = [\<lparr>RunID = 2147483647, DateCreated = ex_noon\<rparr>]\<rparr>
   \<and> snd (CreateTaskRun ex_full ex_two ''next'' 1 (Some ex_trigger)) = Inr ex_wrapped_run
   \<and> sint (ID ex_wrapped_run) = - 2147483648
   \<and> \<not> (2147483647 <s ID ex_wrapped_run)"
proof -
  have "snd (CreateTaskRun ex_full ex_two ''next'' 1 (Some ex_trigger)) = Inr ex_wrapped_run"
    by (simp add: CreateTaskRun_def Let_def storage_Get_def ex_full_def ex_keys ex_keys_min
      ex_index_full_decodes getHighestRunID_def Marshal_TaskRuns_def Marshal_TaskRunSimple_def
      enc_time_legal ex_legal_times Marshal_TaskRunMetadata_def storage_Set_def
      ex_wrapped_run_def ex_trigger_def)
  moreover have "storage_Get ex_full (runs_index_key 1) False = Inr [ex_index_full]"
    by (simp add: storage_Get_def ex_full_def ex_keys)
  moreover have "sint (ID ex_wrapped_run) = - 2147483648"
    by (simp add: ex_wrapped_run_def)
  ultimately show ?thesis
    by (simp add: ex_index_full_decodes word_sless_alt)
qed

lemma CreateTask_no_keys:
  assumes "storage_ListKeys s TASKMETADATA = Inr []"
    and "CreateTask s now name tType target = (s', Inr task)"
  shows "task_ID task = 1"
  using assms
  by (auto simp: CreateTask_def Let_def split: sum.splits option.splits)

lemma CreateTask_no_keys_succeeds:
  assumes "storage_ListKeys s TASKMETADATA = Inr []" and "legal_time now"
    and "GetTaskMetadataKey TASKMETADATA 1 \<notin> set (faulty s)"
    and "runs_index_key 1 \<notin> set (faulty s)"
  shows "\<exists>s'. CreateTask s now name tType (Some tg)
           = (s', Inr \<lparr>task_ID = 1, task_Name = name, task_TaskType = tType,
                       task_Target = Some tg, task_TargetType = target_Type tg,
                       task_DateCreated = now\<rparr>)"
  using assms
  by (simp add: CreateTask_def Let_def Marshal_TaskMetadata_def enc_time_legal storage_Set_def
      Marshal_TaskRuns_def)

lemma CreateTaskRun_empty_index:
  assumes "storage_Get s (runs_index_key taskID) False = Inr (k0 # ks)"
    and "Unmarshal_TaskRuns k0 = Inr runs" and "Runs runs = []"
    and "CreateTaskRun s now name taskID trigger = (s', Inr run)"
  shows "ID run = 1"
  using assms
  by (auto simp: CreateTaskRun_def Let_def getHighestRunID_def
      split: sum.splits option.splits)

lemma CreateTaskRun_empty_index_succeeds:
  assumes "storage_Get s (runs_index_key taskID) False = Inr (k0 # ks)"
    and "Unmarshal_TaskRuns k0 = Inr runs" and "Runs runs = []" and "legal_time now"
    and "run_detail_key now taskID 1 \<notin> set (faulty s)"
  shows "\<exists>s'. CreateTaskRun s now name taskID (Some tr)
           = (s', Inr \<lparr>ID = 1, TaskId = taskID, Name = name, Trigger = Some tr,
                       TriggerType = trigger_Type tr, Status = Pending, StartTime = now,
                       EndTime = zero_time, Logs = [], Error = []\<rparr>)"
proof -
  from assms(1) have "runs_index_key taskID \<notin> set (faulty s)"
    by (auto simp: storage_Get_def split: if_splits)
  moreover have "legal_time zero_time" by (simp add: legal_time_def zero_time_def)
  ultimately show ?thesis
    using assms
    by (simp add: CreateTaskRun_def Let_def getHighestRunID_def Marshal_TaskRuns_def
        Marshal_TaskRunSimple_def Marshal_TaskRunMetadata_def enc_time_legal storage_Set_def)
qed

text \<open>
  C7: \<open>CreateTask\<close> on a store with no keys under the task-metadata prefix returns a task
  with identifier 1, and \<open>CreateTaskRun\<close> on a task whose runs index is empty returns a run
  with identifier 1. Each call does return when the clock reading can be encoded and the
  backend accepts the two writes.
\<close>

theorem C7_first_identifiers:
  "(storage_ListKeys s TASKMETADATA = Inr [] \<and> CreateTask s now name tType target = (s', Inr task)
      \<longrightarrow> task_ID task = 1)
   \<and> (storage_ListKeys s TASKMETADATA = Inr [] \<and> legal_time now
        \<and> GetTaskMetadataKey TASKMETADATA 1 \<notin> set (faulty s) \<and> runs_index_key 1 \<notin> set (faulty s)
      \<longrightarrow> (\<exists>s1. CreateTask s now name tType (Some tg)
                  = (s1, Inr \<lparr>task_ID = 1, task_Name = name, task_TaskType = tType,
                              task_Target = Some tg, task_TargetType = target_Type tg,
                              task_DateCreated = now\<rparr>)))
   \<and> (storage_Get s (runs_index_key taskID) False = Inr (k0 # ks)
        \<and> Unmarshal_TaskRuns k0 = Inr runs \<and> Runs runs = []
        \<and> CreateTaskRun s now name taskID trigger = (s'', Inr run)
      \<longrightarrow> ID run = 1)
   \<and> (storage_Get s (runs_index_key taskID) False = Inr (k0 # ks)
        \<and> Unmarshal_TaskRuns k0 = Inr runs \<and> Runs runs = [] \<and> legal_time now
        \<and> run_detail_key now taskID 1 \<notin> set (faulty s)
      \<longrightarrow> (\<exists>s2. CreateTaskRun s now name taskID (Some tr)
                  = (s2, Inr \<lparr>ID = 1, TaskId = taskID, Name = name, Trigger = Some tr,
                              TriggerType = trigger_Type tr, Status = Pending,
                              StartTime = now, EndTime = zero_time, Logs = [],
                              Error = []\<rparr>)))"
proof (intro conjI impI)
  assume "storage_ListKeys s TASKMETADATA = Inr [] \<and> CreateTask s now name tType target = (s', Inr task)"
  then show "task_ID task = 1"
    using CreateTask_no_keys by blast
next
  assume "storage_ListKeys s TASKMETADATA = Inr [] \<and> legal_time now
        \<and> GetTaskMetadataKey TASKMETADATA 1 \<notin> set (faulty s) \<and> runs_index_key 1 \<notin> set (faulty s)"
  then show "\<exists>s1. CreateTask s now name tType (Some tg)
                  = (s1, Inr \<lparr>task_ID = 1, task_Name = name, task_TaskType = tType,
                              task_Target = Some tg, task_TargetType = target_Type tg,
                              task_DateCreated = now\<rparr>)"
    using CreateTask_no_keys_succeeds by blast
next
  assume "storage_Get s (runs_index_key taskID) False = Inr (k0 # ks)
        \<and> Unmarshal_TaskRuns k0 = Inr runs \<and> Runs runs = []
        \<and> CreateTaskRun s now name taskID trigger = (s'', Inr run)"
  then show "ID run = 1"
    using CreateTaskRun_empty_index by blast
next
  assume "storage_Get s (runs_index_key taskID) False = Inr (k0 # ks)
        \<and> Unmarshal_TaskRuns k0 = Inr runs \<and> Runs runs = [] \<and> legal_time now
        \<and> run_detail_key now taskID 1 \<notin> set (faulty s)"
  then show "\<exists>s2. CreateTaskRun s now name taskID (Some tr)
                  = (s2, Inr \<lparr>ID = 1, TaskId = taskID, Name = name, Trigger = Some tr,
                              TriggerType = trigger_Type tr, Status = Pending,
                              StartTime = now, EndTime = zero_time, Logs = [],
                              Error = []\<rparr>)"
    using CreateTaskRun_empty_index_succeeds by blast
qed

theorem C7_first_identifiers_witness:
  "storage_ListKeys ex_empty TASKMETADATA = Inr []
   \<and> snd (CreateTask ex_empty ex_ten ''etl'' ''ResourceCreation'' (Some ex_target)) = Inr ex_task
   \<and> task_ID ex_task = 1
   \<and> storage_Get ex_indexed (runs_index_key 1) False = Inr [ex_index0]
   \<and> Unmarshal_TaskRuns ex_index0 = Inr \<lparr>TaskID = 1, Runs = []\<rparr>
   \<and> snd (CreateTaskRun ex_indexed ex_noon ''first'' 1 (Some ex_trigger)) = Inr ex_noon_run
   \<and> ID ex_noon_run = 1"
proof -
  have l: "storage_ListKeys ex_empty TASKMETADATA = Inr []"
    by (simp add: storage_ListKeys_def ex_empty_def)
  have g: "storage_Get ex_indexed (runs_index_key 1) False = Inr [ex_index0]"
    by (simp add: storage_Get_def ex_indexed_def ex_keys)
  have f: "GetTaskMetadataKey TASKMETADATA 1 \<notin> set (faulty ex_empty)"
    "runs_index_key 1 \<notin> set (faulty ex_empty)"
    "run_detail_key ex_noon 1 1 \<notin> set (faulty ex_indexed)"
    by (simp_all add: ex_empty_def ex_indexed_def)
  show ?thesis
    using C7_first_identifiers [of ex_empty ex_ten "''etl''" "''ResourceCreation''"
        "Some ex_target" ex_empty ex_task ex_target 1 ex_index0 "[]" "\<lparr>TaskID = 1, Runs = []\<rparr>"
        "Some ex_trigger" ex_empty ex_noon_run ex_trigger]
      C7_first_identifiers [of ex_indexed ex_noon "''first''" "''ResourceCreation''"
        "Some ex_target" ex_empty ex_task ex_target 1 ex_index0 "[]" "\<lparr>TaskID = 1, Runs = []\<rparr>"
        "Some ex_trigger" ex_empty ex_noon_run ex_trigger]
      l g f ex_index0_decodes ex_legal_times
    by (auto simp: ex_task_def ex_target_def ex_noon_run_def ex_trigger_def)
qed

section \<open>Task identifiers read from the listed keys\<close>

lemma before_sep_whole: "sep \<noteq> [] \<Longrightarrow> after_sep sep s = None \<Longrightarrow> before_sep sep s = s"
  by (induction s) (auto split: if_splits)

lemma Contains_after_sep: "sep \<noteq> [] \<Longrightarrow> Contains s sep \<longleftrightarrow> after_sep sep s \<noteq> None"
  by (induction s) auto

lemma split_from_sep:
  "split_from cur (p # ps) s =
     (case after_sep (p # ps) s of
        None \<Rightarrow> [cur @ s]
      | Some rest \<Rightarrow> (cur @ before_sep (p # ps) s) # split_from [] (p # ps) rest)"
proof (induction cur "p # ps" s rule: split_from.induct)
  case (1 cur)
  then show ?case by simp
next
  case (3 cur c cs)
  show ?case
  proof (cases "prefix (p # ps) (c # cs)")
    case True
    then show ?thesis by simp
  next
    case False
    with 3(2) have "split_from (cur @ [c]) (p # ps) cs =
       (case after_sep (p # ps) cs of
          None \<Rightarrow> [(cur @ [c]) @ cs]
        | Some rest \<Rightarrow> ((cur @ [c]) @ before_sep (p # ps) cs) # split_from [] (p # ps) rest)"
      by simp
    with False show ?thesis by (auto split: option.splits)
  qed
qed

lemma split_from_hd:
  "split_from [] (p # ps) s = before_sep (p # ps) s # tl (split_from [] (p # ps) s)"
  using split_from_sep [of "[]" p ps s] before_sep_whole [of "p # ps" s]
  by (cases "after_sep (p # ps) s") simp_all

lemma Split_parts:
  "Split key ''task_id='' =
     (case after_sep ''task_id='' key of
        None \<Rightarrow> [key]
      | Some rest \<Rightarrow>
          before_sep ''task_id='' key # before_sep ''task_id='' rest
            # tl (split_from [] ''task_id='' rest))"
proof (cases "after_sep ''task_id='' key")
  case None
  then show ?thesis
    using split_from_sep [of "[]" "CHR ''t''" "''ask_id=''" key] by (simp add: Split_def)
next
  case (Some rest)
  have "split_from [] ''task_id='' rest
          = before_sep ''task_id='' rest # tl (split_from [] ''task_id='' rest)"
    using split_from_hd [of "CHR ''t''" "''ask_id=''" rest] by simp
  then show ?thesis
    using Some split_from_sep [of "[]" "CHR ''t''" "''ask_id=''" key] by (simp add: Split_def)
qed

lemma getLatestID_loop_unreadable:
  "key \<in> set keys \<Longrightarrow> unreadable_key key \<Longrightarrow> isl (getLatestID_loop h keys)"
proof (induction keys arbitrary: h)
  case Nil
  then show ?case by simp
next
  case (Cons k keys)
  show ?case
  proof (cases "unreadable_key k")
    case True
    then show ?thesis
      by (cases "after_sep ''task_id='' k")
         (auto simp: unreadable_key_def Split_parts Let_def split: sum.splits)
  next
    case False
    with Cons.prems have "key \<in> set keys" by auto
    from Cons.IH [OF this Cons.prems(2)] show ?thesis
      by (auto simp: Let_def split: sum.splits)
  qed
qed

lemma getLatestID_loop_no_panic: "getLatestID_loop h keys = Inl e \<Longrightarrow> e \<noteq> Panic p"
  by (induction keys arbitrary: h) (auto simp: Let_def split: if_splits sum.splits)

lemma returned_error_Inl: "(\<And>p. e \<noteq> Panic p) \<Longrightarrow> returned_error (Inl e)"
  by (cases e) auto

lemma getLatestID_unreadable:
  assumes "key \<in> set keys" and "unreadable_key key"
  shows "\<exists>e. getLatestID keys = Inl e \<and> (\<forall>p. e \<noteq> Panic p)"
proof -
  from getLatestID_loop_unreadable [OF assms, of "- 1"]
  obtain e where e: "getLatestID_loop (- 1) keys = Inl e"
    by (cases "getLatestID_loop (- 1) keys") auto
  then have "\<forall>p. e \<noteq> Panic p"
    using getLatestID_loop_no_panic by blast
  with e show ?thesis by (simp add: getLatestID_def)
qed

lemma unreadable_key_iff:
  "unreadable_key key \<longleftrightarrow>
     (\<not> Contains key ''task_id=''
      \<or> (\<exists>rest. after_sep ''task_id='' key = Some rest
                  \<and> isl (Atoi (before_sep ''task_id='' rest))))"
  by (cases "after_sep ''task_id='' key") (simp_all add: unreadable_key_def Contains_after_sep)

text \<open>
  C10, as amended: if some key listed under the task-metadata prefix does not contain
  \<open>task_id=\<close>, or the text between its first \<open>task_id=\<close> and the next \<open>task_id=\<close> (the
  end of the key when there is no other) does not parse as an integer, then \<open>CreateTask\<close>
  returns an error and leaves the store as it was, wherever the key stands in the
  listing: the key is not skipped.
\<close>

theorem C10_unreadable_key_blocks_creation:
  assumes "storage_ListKeys s TASKMETADATA = Inr keys"
    and "key \<in> set keys"
    and "\<not> Contains key ''task_id=''
         \<or> (\<exists>rest. after_sep ''task_id='' key = Some rest
                     \<and> isl (Atoi (before_sep ''task_id='' rest)))"
  shows "returned_error (snd (CreateTask s now name tType target))
         \<and> fst (CreateTask s now name tType target) = s"
proof -
  from assms(2) have ne: "keys \<noteq> []" by auto
  from assms(3) have "unreadable_key key" by (simp add: unreadable_key_iff)
  from getLatestID_unreadable [OF assms(2) this] obtain e where
    e: "getLatestID keys = Inl e" and np: "\<And>p. e \<noteq> Panic p"
    by blast
  have "CreateTask s now name tType target = (s, Inl e)"
    using assms(1) ne e by (simp add: CreateTask_def)
  with returned_error_Inl [OF np] show ?thesis by simp
qed

lemma ex_bad_key_listed:
  "storage_ListKeys ex_bad_key TASKMETADATA
     = Inr [''/tasks/metadata/task_id=1'', ''/tasks/metadata/task_id=x'']"
  by (simp add: storage_ListKeys_def ex_bad_key_def TASKMETADATA_def)

lemma ex_bad_key_unreadable:
  "after_sep ''task_id='' ''/tasks/metadata/task_id=x'' = Some ''x''
   \<and> before_sep ''task_id='' ''x'' = ''x'' \<and> Atoi ''x'' = Inl (NumErrorSyntax ''x'')"
  by (simp add: Atoi_def isDigit_def)

lemma ex_bad_key_result:
  "CreateTask ex_bad_key ex_ten ''etl'' ''ResourceCreation'' (Some ex_target)
     = (ex_bad_key, Inl (ErrorfWrap ''failed to convert task_id to integer: ''
                          (NumErrorSyntax ''x'')))"
  by (simp add: CreateTask_def ex_bad_key_listed getLatestID_def Split_def Atoi_def isDigit_def
      word_sless_alt)

theorem C10_unreadable_key_blocks_creation_witness:
  "storage_ListKeys ex_bad_key TASKMETADATA
     = Inr [''/tasks/metadata/task_id=1'', ''/tasks/metadata/task_id=x'']
   \<and> after_sep ''task_id='' ''/tasks/metadata/task_id=x'' = Some ''x''
   \<and> before_sep ''task_id='' ''x'' = ''x'' \<and> Atoi ''x'' = Inl (NumErrorSyntax ''x'')
   \<and> returned_error (snd (CreateTask ex_bad_key ex_ten ''etl'' ''ResourceCreation'' (Some ex_target)))
   \<and> fst (CreateTask ex_bad_key ex_ten ''etl'' ''ResourceCreation'' (Some ex_target)) = ex_bad_key
   \<and> snd (CreateTask ex_bad_key ex_ten ''etl'' ''ResourceCreation'' (Some ex_target))
       = Inl (ErrorfWrap ''failed to convert task_id to integer: '' (NumErrorSyntax ''x''))"
  using C10_unreadable_key_blocks_creation [OF ex_bad_key_listed,
      of "''/tasks/metadata/task_id=x''" ex_ten "''etl''" "''ResourceCreation''" "Some ex_target"]
    ex_bad_key_listed ex_bad_key_unreadable
  by (simp add: ex_bad_key_result)

lemma fmt_d_6: "fmt_d 6 = ''6''"
  by code_simp

text \<open>
  C10 as stated fails for a key with a second \<open>task_id=\<close>: the suffix after the first
  one, \<open>5task_id=x\<close>, does not parse as an integer, yet the code reads the identifier 5
  from it, creates task 6 and writes its two keys.
\<close>

theorem C10_text_after_second_marker_ignored:
  "storage_ListKeys ex_two_ids TASKMETADATA = Inr [''/tasks/metadata/task_id=5task_id=x'']
   \<and> Contains ''/tasks/metadata/task_id=5task_id=x'' ''task_id=''
   \<and> after_sep ''task_id='' ''/tasks/metadata/task_id=5task_id=x'' = Some ''5task_id=x''
   \<and> Atoi ''5task_id=x'' = Inl (NumErrorSyntax ''5task_id=x'')
   \<and> snd (CreateTask ex_two_ids ex_ten ''etl'' ''ResourceCreation'' (Some ex_target))
       = Inr ex_task6
   \<and> fst (CreateTask ex_two_ids ex_ten ''etl'' ''ResourceCreation'' (Some ex_target))
       \<noteq> ex_two_ids"
proof -
  have l: "storage_ListKeys ex_two_ids TASKMETADATA = Inr [''/tasks/metadata/task_id=5task_id=x'']"
    by (simp add: storage_ListKeys_def ex_two_ids_def TASKMETADATA_def)
  have i: "getLatestID [''/tasks/metadata/task_id=5task_id=x''] = Inr 5"
    by (simp add: getLatestID_def Split_def Atoi_def isDigit_def word_sless_alt)
  have a: "Atoi ''5task_id=x'' = Inl (NumErrorSyntax ''5task_id=x'')"
    by (simp add: Atoi_def isDigit_def)
  have c: "CreateTask ex_two_ids ex_ten ''etl'' ''ResourceCreation'' (Some ex_target)
      = (ex_two_ids\<lparr>entries :=
           [(''/tasks/metadata/task_id=5task_id=x'', JNull),
            (''/tasks/metadata/task_id=6'',
             JObj [(''id'', JNum 6), (''name'', JStr ''etl''), (''type'', JStr ''ResourceCreation''),
                   (''target'', JObj [(''name'', JStr ''n''), (''targetType'', JStr ''NameVariant'')]),
                   (''targetType'', JStr ''NameVariant''), (''dateCreated'', JTime ex_ten)]),
            (''/tasks/runs/task_id=6'', JObj [(''TaskID'', JNum 6), (''Runs'', JArr [])])]\<rparr>,
         Inr ex_task6)"
  proof -
    have k: "GetTaskMetadataKey TASKMETADATA 6 = ''/tasks/metadata/task_id=6''"
      "runs_index_key 6 = ''/tasks/runs/task_id=6''"
      by (simp_all add: GetTaskMetadataKey_def TASKMETADATA_def runs_index_key_def fmt_d_6)
    have f: "faulty ex_two_ids = []"
      "entries ex_two_ids = [(''/tasks/metadata/task_id=5task_id=x'', JNull)]"
      by (simp_all add: ex_two_ids_def)
    show ?thesis
      by (simp add: CreateTask_def Let_def l i Marshal_TaskMetadata_def enc_time_legal
          ex_legal_times storage_Set_def Marshal_TaskRuns_def k f ex_task6_def ex_target_def)
  qed
  show ?thesis
    using l a c by (simp add: ex_two_ids_def)
qed

end
